theory Spec2Isabelle
  imports Complex_Main "HOL-Library.AList"
begin

section \<open>JavaScript values\<close>

text \<open>
  The values the console handles at run time: what \<^verbatim>\<open>JSON.parse\<close> and the providers
  return, what a tool handler returns to the agent and what a \<^verbatim>\<open>throw\<close> carries
  (any value can be thrown). An object lists its own properties; \<open>JFun\<close> is a function
  value (the only ones read here are inherited methods). Strings are lists of 8-bit
  characters.
\<close>

datatype jsval =
    JUndefined
  | JNull
  | JBool bool
  | JNum rat
  | JStr string
  | JArr "jsval list"
  | JObj "(string \<times> jsval) list"
  | JFun

text \<open>\<^verbatim>\<open>v ?? d\<close> and \<^verbatim>\<open>v?.p\<close> test for null and undefined.\<close>

fun nullish :: "jsval \<Rightarrow> bool" where
  "nullish JUndefined = True"
| "nullish JNull = True"
| "nullish _ = False"

text \<open>The truth value of \<^verbatim>\<open>if (v)\<close>, \<^verbatim>\<open>!v\<close>, \<^verbatim>\<open>a && b\<close> and \<^verbatim>\<open>a || b\<close>.\<close>

fun truthy :: "jsval \<Rightarrow> bool" where
  "truthy JUndefined = False"
| "truthy JNull = False"
| "truthy (JBool b) = b"
| "truthy (JNum n) = (n \<noteq> 0)"
| "truthy (JStr s) = (s \<noteq> [])"
| "truthy (JArr _) = True"
| "truthy (JObj _) = True"
| "truthy JFun = True"

text \<open>An \<^verbatim>\<open>Error\<close> object: its \<^verbatim>\<open>name\<close> and its \<^verbatim>\<open>message\<close>.\<close>

definition js_error :: "string \<Rightarrow> string \<Rightarrow> jsval" where
  "js_error name msg = JObj [(''name'', JStr name), (''message'', JStr msg)]"

text \<open>
  The TypeErrors the engine raises itself. The message texts follow V8; nothing below
  depends on them.
\<close>

definition cannot_read :: "jsval \<Rightarrow> string \<Rightarrow> jsval" where
  "cannot_read v p = js_error ''TypeError''
     (''Cannot read properties of '' @ (if v = JNull then ''null'' else ''undefined'')
      @ '' (reading '' @ [CHR 0x27] @ p @ [CHR 0x27] @ '')'')"

definition not_a_function :: "string \<Rightarrow> jsval" where
  "not_a_function what = js_error ''TypeError'' (what @ '' is not a function'')"

text \<open>
  A property read \<^verbatim>\<open>v.p\<close>. Reading from null or undefined throws; an object gives
  its own property or undefined. Of the inherited properties only those whose names the
  code reads are listed: \<^verbatim>\<open>length\<close> of arrays and strings and the string method
  \<^verbatim>\<open>search\<close>.
\<close>

fun get_prop :: "jsval \<Rightarrow> string \<Rightarrow> jsval + jsval" where
  "get_prop JUndefined p = Inl (cannot_read JUndefined p)"
| "get_prop JNull p = Inl (cannot_read JNull p)"
| "get_prop (JObj kvs) p = Inr (case map_of kvs p of None \<Rightarrow> JUndefined | Some v \<Rightarrow> v)"
| "get_prop (JArr xs) p = Inr (if p = ''length'' then JNum (of_nat (length xs)) else JUndefined)"
| "get_prop (JStr s) p =
     Inr (if p = ''length'' then JNum (of_nat (length s))
          else if p = ''search'' then JFun else JUndefined)"
| "get_prop _ p = Inr JUndefined"

section \<open>utils/on-tool.ts\<close>

text \<open>
  \<^verbatim>\<open>_onTool(args, handler)\<close>. A handler, once its promise has settled, has returned a
  value (\<open>Inr\<close>) or thrown one (\<open>Inl\<close>), and has changed the state it closes over.
  The result of \<open>onTool\<close> is \<open>Inl\<close> when \<^verbatim>\<open>_onTool\<close> itself rejects: the read of
  \<^verbatim>\<open>error.message\<close> in the catch block is not guarded.
\<close>

definition onTool ::
  "'a \<Rightarrow> ('a \<Rightarrow> 's \<Rightarrow> (jsval + jsval) \<times> 's) \<Rightarrow> 's \<Rightarrow> (jsval + jsval) \<times> 's" where
  "onTool args handler s =
     (case handler args s of
        (Inr v, s') \<Rightarrow> (Inr (if nullish v then JObj [(''success'', JBool True)] else v), s')
      | (Inl error, s') \<Rightarrow>
          (case get_prop error ''message'' of
             Inl e \<Rightarrow> (Inl e, s')
           | Inr m \<Rightarrow> (Inr (JObj [(''error'', m)]), s')))"


section \<open>store/memorySlice.ts\<close>

text \<open>
  \<^verbatim>\<open>memory: Record<string, string>\<close>, the pairs in the object's property order. An
  assignment to an existing key keeps its place and a new key goes last. This is the
  order of an object for the keys the tool schema asks for; two kinds of key are outside
  the model: array indices, which an object lists first, and \<^verbatim>\<open>__proto__\<close>, for which
  an assignment creates no property.
\<close>

record MemoryState =
  memory :: "(string \<times> string) list"

definition initialState :: MemoryState where
  "initialState = \<lparr>memory = []\<rparr>"

definition setMemory :: "MemoryState \<Rightarrow> (string \<times> string) list \<Rightarrow> MemoryState" where
  "setMemory state payload = state\<lparr>memory := payload\<rparr>"

definition removeMemory :: "MemoryState \<Rightarrow> string \<Rightarrow> MemoryState" where
  "removeMemory state payload = state\<lparr>memory := AList.delete payload (memory state)\<rparr>"

definition updateMemory :: "MemoryState \<Rightarrow> string \<Rightarrow> string \<Rightarrow> MemoryState" where
  "updateMemory state key val = state\<lparr>memory := AList.update key val (memory state)\<rparr>"

definition clearMemory :: "MemoryState \<Rightarrow> MemoryState" where
  "clearMemory state = state\<lparr>memory := []\<rparr>"

subsection \<open>\<^verbatim>\<open>JSON.stringify(memory, null, 2)\<close>\<close>

definition hex_digit :: "nat \<Rightarrow> char" where
  "hex_digit n = ''0123456789abcdef'' ! (n mod 16)"

text \<open>One character inside a JSON string literal.\<close>

definition json_escape :: "char \<Rightarrow> string" where
  "json_escape c =
     (if c = CHR 0x22 then [CHR 0x5C, CHR 0x22]
      else if c = CHR 0x5C then [CHR 0x5C, CHR 0x5C]
      else if c = CHR 0x08 then [CHR 0x5C, CHR ''b'']
      else if c = CHR 0x0C then [CHR 0x5C, CHR ''f'']
      else if c = CHR 0x0A then [CHR 0x5C, CHR ''n'']
      else if c = CHR 0x0D then [CHR 0x5C, CHR ''r'']
      else if c = CHR 0x09 then [CHR 0x5C, CHR ''t'']
      else if of_char c < (32::nat)
        then [CHR 0x5C, CHR ''u'', CHR ''0'', CHR ''0'',
              hex_digit (of_char c div 16), hex_digit (of_char c)]
      else [c])"

definition json_quote :: "string \<Rightarrow> string" where
  "json_quote str = [CHR 0x22] @ concat (map json_escape str) @ [CHR 0x22]"

fun json_members :: "(string \<times> string) list \<Rightarrow> string" where
  "json_members [] = []"
| "json_members [(k, v)] = ''  '' @ json_quote k @ '': '' @ json_quote v"
| "json_members ((k, v) # kvs) =
     ''  '' @ json_quote k @ '': '' @ json_quote v @ [CHR '','', CHR 0x0A] @ json_members kvs"

definition json_stringify_memory :: "(string \<times> string) list \<Rightarrow> string" where
  "json_stringify_memory m =
     (if m = [] then ''{}'' else ''{'' @ [CHR 0x0A] @ json_members m @ [CHR 0x0A] @ ''}'')"

section \<open>utils/conversation_config.ts\<close>

text \<open>
  The module's constants. \<open>instructions\<close> is a template evaluated once, when the module
  loads (it embeds the time of loading), so it is a field here.
\<close>

record conversation_config =
  instructions :: string
  startingPrompt :: string
  voice :: string
  temperature :: rat

section \<open>pages/ConsolePage.tsx: the state\<close>

subsection \<open>The event log\<close>

datatype event_source = client | server

text \<open>
  The raw protocol event \<^verbatim>\<open>{[key: string]: any}\<close>: its \<^verbatim>\<open>type\<close> (a string; \<open>None\<close>
  when the property is absent, read as undefined) and its other properties.
\<close>

record protocol_event =
  ev_type :: "string option"
  ev_fields :: "(string \<times> jsval) list"

record RealtimeEvent =
  time :: string
  source :: event_source
  count :: "int option"
  event :: protocol_event

text \<open>
  The updater the \<^verbatim>\<open>realtime.event\<close> handler passes to \<^verbatim>\<open>setRealtimeEvents\<close>. On an
  empty log \<^verbatim>\<open>lastEvent\<close> is undefined and so is \<^verbatim>\<open>lastEvent?.event.type\<close>; an event
  without a type then takes the first branch and the assignment to \<^verbatim>\<open>lastEvent.count\<close>
  throws. \<^verbatim>\<open>(lastEvent.count || 0) + 1\<close> reads an unset counter (and a zero one) as 0.
  The updater is applied once for each event.
\<close>

definition on_realtime_event ::
  "RealtimeEvent \<Rightarrow> RealtimeEvent list \<Rightarrow> jsval + RealtimeEvent list" where
  "on_realtime_event realtimeEvent realtimeEvents =
     (if realtimeEvents = [] then
        (if ev_type (event realtimeEvent) = None
         then Inl (js_error ''TypeError''
                    (''Cannot set properties of undefined (setting '' @ [CHR 0x27] @ ''count''
                     @ [CHR 0x27] @ '')''))
         else Inr (realtimeEvents @ [realtimeEvent]))
      else
        (let lastEvent = last realtimeEvents in
         if ev_type (event lastEvent) = ev_type (event realtimeEvent)
         then Inr (butlast realtimeEvents @
                   [lastEvent\<lparr>count := Some ((case count lastEvent of None \<Rightarrow> 0 | Some c \<Rightarrow> c) + 1)\<rparr>])
         else Inr (realtimeEvents @ [realtimeEvent])))"

text \<open>The events of a stream, handled in arrival order; a throwing handler ends the run.\<close>

fun on_realtime_events ::
  "RealtimeEvent list \<Rightarrow> RealtimeEvent list \<Rightarrow> jsval + RealtimeEvent list" where
  "on_realtime_events [] entries = Inr entries"
| "on_realtime_events (e # es) entries =
     (case on_realtime_event e entries of
        Inl err \<Rightarrow> Inl err
      | Inr entries' \<Rightarrow> on_realtime_events es entries')"

subsection \<open>Runs of a stream, in the spec's words\<close>

text \<open>
  The stream cut into its maximal runs of consecutive events of one type: each run as
  its first event and its length.
\<close>

fun runs :: "RealtimeEvent list \<Rightarrow> (RealtimeEvent \<times> nat) list" where
  "runs [] = []"
| "runs (e # es) =
     (case runs es of
        [] \<Rightarrow> [(e, 1)]
      | (f, n) # rest \<Rightarrow>
          if ev_type (event e) = ev_type (event f) then (e, Suc n) # rest
          else (e, 1) # (f, n) # rest)"

text \<open>The log entry the code keeps for a run: the first event, counting the repeats.\<close>

definition entry_of_run :: "RealtimeEvent \<times> nat \<Rightarrow> RealtimeEvent" where
  "entry_of_run r = (if snd r \<le> 1 then fst r else (fst r)\<lparr>count := Some (int (snd r) - 1)\<rparr>)"


subsection \<open>The collaborators\<close>

text \<open>
  Modelled from the spec: \<^verbatim>\<open>WavRecorder\<close> of lib/wavtools, whose code is not among the
  sources. \<^verbatim>\<open>begin()\<close> acquires the device, \<^verbatim>\<open>record(onFrame)\<close> starts delivering
  frames until \<^verbatim>\<open>pause()\<close>, \<^verbatim>\<open>end()\<close> releases the device; \<^verbatim>\<open>getStatus()\<close> reads the
  status.
\<close>

datatype recorder_status = ended | paused | recording

record WavRecorder =
  rec_status :: recorder_status

text \<open>
  Modelled from the spec: \<^verbatim>\<open>WavStreamPlayer\<close> of lib/wavtools. \<^verbatim>\<open>interrupt()\<close> stops
  the output at once and yields the identifier and the sample offset of the track that
  was cut off, or nothing when no track was playing. The call is asynchronous, and the
  page awaits it in \<^verbatim>\<open>disconnectConversation\<close> and in the \<^verbatim>\<open>conversation.interrupted\<close>
  handler: what it returns is a promise, and the record is what the promise settles to.
\<close>

datatype 'a promise = Promise 'a

fun awaited :: "'a promise \<Rightarrow> 'a" where
  "awaited (Promise v) = v"

text \<open>
  A property read on the promise object itself, where the code does not await it. A
  promise has its methods and no other property: the names \<^verbatim>\<open>trackId\<close> and \<^verbatim>\<open>offset\<close>
  read undefined.
\<close>

definition promise_prop :: "'a promise \<Rightarrow> string \<Rightarrow> jsval" where
  "promise_prop p name = (if name \<in> {''then'', ''catch'', ''finally''} then JFun else JUndefined)"

record track_sample_offset =
  trackId :: string
  offset :: nat

record WavStreamPlayer =
  playing :: "track_sample_offset option"

definition interrupt ::
  "WavStreamPlayer \<Rightarrow> track_sample_offset option promise \<times> WavStreamPlayer" where
  "interrupt p = (Promise (playing p), p\<lparr>playing := None\<rparr>)"

text \<open>
  The transport, \<^verbatim>\<open>RealtimeClient\<close> of the package @openai/realtime-api-beta: whether it
  is connected, the session configuration pushed to it so far (a property never pushed
  is \<open>None\<close>), the tools and event handlers registered, and its conversation items.
  \<^verbatim>\<open>updateSession\<close> takes an object with some of the session properties;
  \<^verbatim>\<open>turn_detection: null\<close> is \<open>TurnDetection None\<close>.
\<close>

datatype session_field =
    Instructions string
  | InputAudioTranscription string
  | Voice string
  | Temperature rat
  | TurnDetection "string option"

record session_config =
  cfg_instructions :: "string option"
  cfg_transcription_model :: "string option"
  cfg_voice :: "string option"
  cfg_temperature :: "rat option"
  cfg_turn_detection :: "string option"

record RealtimeClient =
  connected :: bool
  sessionConfig :: session_config
  tools :: "string list"
  subscriptions :: "string list"
  conversation_items :: "jsval list"

fun set_session_field :: "session_config \<Rightarrow> session_field \<Rightarrow> session_config" where
  "set_session_field c (Instructions t) = c\<lparr>cfg_instructions := Some t\<rparr>"
| "set_session_field c (InputAudioTranscription m) = c\<lparr>cfg_transcription_model := Some m\<rparr>"
| "set_session_field c (Voice v) = c\<lparr>cfg_voice := Some v\<rparr>"
| "set_session_field c (Temperature t) = c\<lparr>cfg_temperature := Some t\<rparr>"
| "set_session_field c (TurnDetection d) = c\<lparr>cfg_turn_detection := d\<rparr>"

definition new_RealtimeClient :: RealtimeClient where
  "new_RealtimeClient =
     \<lparr>connected = False,
      sessionConfig = \<lparr>cfg_instructions = None, cfg_transcription_model = None,
                       cfg_voice = None, cfg_temperature = None, cfg_turn_detection = None\<rparr>,
      tools = [], subscriptions = [], conversation_items = []\<rparr>"

text \<open>Every call on a collaborator, in the order the page makes them.\<close>

datatype effect =
    RecorderRecord
  | RecorderPause
  | RecorderEnd
  | PlayerInterrupt
  | ClientDisconnect
  | ClientUpdateSession "session_field list"
  | ClientCancelResponse jsval jsval
  | ClientCreateResponse
  | ClientAppendInputAudio "int list"
  | ClientAddTool string
  | ClientOn string
  | Fetch string
  | ImagesGenerate string
  | CheerioLoad
  | Turndown

subsection \<open>The page\<close>

record Reading =
  rd_value :: jsval
  rd_units :: jsval

record Coordinates =
  lat :: rat
  lng :: rat
  location :: "string option"
  temperature_reading :: "Reading option"
  wind_speed :: "Reading option"

text \<open>
  The state the component keeps in \<^verbatim>\<open>useState\<close>, in the redux store and in its refs,
  with the collaborators the refs point to. \<open>setup_deps\<close> is the dependency array of
  the setup effect at its last run, \<open>None\<close> before the first render is committed.
\<close>

record console =
  items :: "jsval list"
  realtimeEvents :: "RealtimeEvent list"
  isConnected :: bool
  canPushToTalk :: bool
  isRecording :: bool
  store :: MemoryState
  coords :: "Coordinates option"
  marker :: "Coordinates option"
  information :: "string option"
  displayedImage :: "jsval option"
  clientRef :: "RealtimeClient option"
  wavRecorder :: WavRecorder
  wavStreamPlayer :: WavStreamPlayer
  setup_deps :: "jsval list option"
  calls :: "effect list"

definition selectMemory :: "console \<Rightarrow> (string \<times> string) list" where
  "selectMemory state = memory (store state)"

definition default_coords :: Coordinates where
  "default_coords = \<lparr>lat = 37.775593, lng = - 122.418137, location = None,
                      temperature_reading = None, wind_speed = None\<rparr>"

text \<open>The state of the first render, for a store that holds \<open>m\<close>.\<close>

definition initial_console :: "(string \<times> string) list \<Rightarrow> console" where
  "initial_console m =
     \<lparr>items = [], realtimeEvents = [], isConnected = False, canPushToTalk = True,
      isRecording = False, store = \<lparr>memory = m\<rparr>, coords = Some default_coords,
      marker = None, information = None, displayedImage = None, clientRef = None,
      wavRecorder = \<lparr>rec_status = ended\<rparr>, wavStreamPlayer = \<lparr>playing = None\<rparr>,
      setup_deps = None, calls = []\<rparr>"

definition call :: "effect \<Rightarrow> console \<Rightarrow> console" where
  "call e s = s\<lparr>calls := calls s @ [e]\<rparr>"

definition recorder_record :: "console \<Rightarrow> console" where
  "recorder_record s = call RecorderRecord (s\<lparr>wavRecorder := (wavRecorder s)\<lparr>rec_status := recording\<rparr>\<rparr>)"

definition recorder_pause :: "console \<Rightarrow> console" where
  "recorder_pause s = call RecorderPause (s\<lparr>wavRecorder := (wavRecorder s)\<lparr>rec_status := paused\<rparr>\<rparr>)"

definition recorder_end :: "console \<Rightarrow> console" where
  "recorder_end s = call RecorderEnd (s\<lparr>wavRecorder := (wavRecorder s)\<lparr>rec_status := ended\<rparr>\<rparr>)"

definition player_interrupt :: "console \<Rightarrow> track_sample_offset option promise \<times> console" where
  "player_interrupt s =
     (fst (interrupt (wavStreamPlayer s)),
      call PlayerInterrupt (s\<lparr>wavStreamPlayer := snd (interrupt (wavStreamPlayer s))\<rparr>))"

text \<open>
  Calls on \<^verbatim>\<open>client\<close>, the object \<^verbatim>\<open>clientRef.current\<close> pointed to when the calling
  function read it (every caller returns early when there is none).
\<close>

definition client_isConnected :: "console \<Rightarrow> bool" where
  "client_isConnected s = (case clientRef s of None \<Rightarrow> False | Some c \<Rightarrow> connected c)"

definition client_updateSession :: "session_field list \<Rightarrow> console \<Rightarrow> console" where
  "client_updateSession patch s =
     (case clientRef s of
        None \<Rightarrow> s
      | Some c \<Rightarrow>
          call (ClientUpdateSession patch)
            (s\<lparr>clientRef :=
                 Some (c\<lparr>sessionConfig := foldl set_session_field (sessionConfig c) patch\<rparr>)\<rparr>))"

definition client_disconnect :: "console \<Rightarrow> console" where
  "client_disconnect s =
     (case clientRef s of
        None \<Rightarrow> s
      | Some c \<Rightarrow> call ClientDisconnect (s\<lparr>clientRef := Some (c\<lparr>connected := False\<rparr>)\<rparr>))"

definition client_addTool :: "string \<Rightarrow> console \<Rightarrow> console" where
  "client_addTool name s =
     (case clientRef s of
        None \<Rightarrow> s
      | Some c \<Rightarrow> call (ClientAddTool name) (s\<lparr>clientRef := Some (c\<lparr>tools := tools c @ [name]\<rparr>)\<rparr>))"

definition client_on :: "string \<Rightarrow> console \<Rightarrow> console" where
  "client_on name s =
     (case clientRef s of
        None \<Rightarrow> s
      | Some c \<Rightarrow>
          call (ClientOn name) (s\<lparr>clientRef := Some (c\<lparr>subscriptions := subscriptions c @ [name]\<rparr>)\<rparr>))"

text \<open>
  The callback every \<^verbatim>\<open>wavRecorder.record\<close> call passes: a frame goes to the transport
  when the client is connected and is dropped, with a warning, when it is not.
\<close>

definition on_frame :: "int list \<Rightarrow> console \<Rightarrow> console" where
  "on_frame samples s =
     (if client_isConnected s then call (ClientAppendInputAudio samples) s else s)"

text \<open>
  Modelled from the spec: the recorder invokes the callback once per captured chunk
  from \<^verbatim>\<open>record\<close> until \<^verbatim>\<open>pause\<close>, so a chunk is captured only while it is recording.
\<close>

definition capture_chunk :: "int list \<Rightarrow> console \<Rightarrow> console" where
  "capture_chunk samples s =
     (if rec_status (wavRecorder s) = recording then on_frame samples s else s)"

section \<open>pages/ConsolePage.tsx: the session controls\<close>

definition disconnectConversation :: "console \<Rightarrow> console" where
  "disconnectConversation s0 =
     (let s = s0\<lparr>isConnected := False, realtimeEvents := [], items := [],
                coords := Some default_coords, marker := None\<rparr>
      in case clientRef s of
           None \<Rightarrow> s
         | Some c \<Rightarrow> snd (player_interrupt (recorder_end (client_disconnect s))))"

text \<open>
  \<^verbatim>\<open>startRecording\<close> does not await \<^verbatim>\<open>wavStreamPlayer.interrupt()\<close>:
  \<^verbatim>\<open>trackSampleOffset\<close> is the promise, and \<^verbatim>\<open>trackSampleOffset?.trackId\<close>, tested for
  truth, is a property of the promise.
\<close>

definition startRecording :: "console \<Rightarrow> console" where
  "startRecording s0 =
     (let s = s0\<lparr>isRecording := True\<rparr>
      in case clientRef s of
           None \<Rightarrow> s
         | Some c \<Rightarrow>
             (let (trackSampleOffset, s1) = player_interrupt s;
                  s2 = (if truthy (promise_prop trackSampleOffset ''trackId'')
                        then call (ClientCancelResponse
                                     (promise_prop trackSampleOffset ''trackId'')
                                     (promise_prop trackSampleOffset ''offset'')) s1
                        else s1)
              in recorder_record s2))"

text \<open>
  The handler of \<^verbatim>\<open>conversation.interrupted\<close>, registered by the setup effect, has the
  same three lines with the call awaited: \<^verbatim>\<open>trackSampleOffset\<close> is the settled record,
  and a record with a non-empty identifier is cancelled.
\<close>

definition on_conversation_interrupted :: "console \<Rightarrow> console" where
  "on_conversation_interrupted s =
     (let (pending, s1) = player_interrupt s;
          trackSampleOffset = awaited pending
      in case trackSampleOffset of
           None \<Rightarrow> s1
         | Some t \<Rightarrow>
             if trackId t \<noteq> []
             then call (ClientCancelResponse (JStr (trackId t)) (JNum (of_nat (offset t)))) s1
             else s1)"

definition stopRecording :: "console \<Rightarrow> console" where
  "stopRecording s0 =
     (let s = s0\<lparr>isRecording := False\<rparr>
      in case clientRef s of
           None \<Rightarrow> s
         | Some c \<Rightarrow>
             (let s1 = recorder_pause s
              in if client_isConnected s1 then call ClientCreateResponse s1 else s1))"

definition changeTurnEndType :: "string \<Rightarrow> console \<Rightarrow> console" where
  "changeTurnEndType val s =
     (case clientRef s of
        None \<Rightarrow> s
      | Some c \<Rightarrow>
          (let s1 = (if val = ''none'' \<and> rec_status (wavRecorder s) = recording
                     then recorder_pause s else s);
               s2 = client_updateSession
                      [TurnDetection (if val = ''none'' then None else Some ''server_vad'')] s1;
               s3 = (if val = ''server_vad'' \<and> client_isConnected s2
                     then recorder_record s2 else s2)
           in s3\<lparr>canPushToTalk := (val = ''none'')\<rparr>))"


section \<open>pages/ConsolePage.tsx: the setup effect\<close>

text \<open>The instructions pushed to the transport: the template around the memory snapshot.\<close>

definition session_instructions :: "conversation_config \<Rightarrow> (string \<times> string) list \<Rightarrow> string" where
  "session_instructions cfg m =
     instructions cfg @ [CHR 0x0A, CHR 0x0A] @ ''Current Memory:'' @ [CHR 0x0A]
     @ json_stringify_memory m"

definition tool_names :: "string list" where
  "tool_names =
     [''set_memory'', ''remove_memory'', ''get_time'', ''show_location'', ''show_info'',
      ''get_weather'', ''generate_image'', ''search_related_topics'', ''wikipedia_search'',
      ''webpage_scrape'']"

definition event_names :: "string list" where
  "event_names =
     [''realtime.event'', ''error'', ''conversation.interrupted'', ''conversation.updated'']"

text \<open>
  The body of the effect \<^verbatim>\<open>useEffect(() => {...}, [])\<close> that starts at "Core
  RealtimeClient and audio capture setup": three session updates, the ten tools, the four
  event handlers, and the first copy of the conversation items.
\<close>

definition setup_effect :: "conversation_config \<Rightarrow> console \<Rightarrow> console" where
  "setup_effect cfg s =
     (case clientRef s of
        None \<Rightarrow> s
      | Some c \<Rightarrow>
          (let s1 = client_updateSession [Instructions (session_instructions cfg (selectMemory s))] s;
               s2 = client_updateSession [InputAudioTranscription ''whisper-1''] s1;
               s3 = client_updateSession [Voice (voice cfg), Temperature (temperature cfg)] s2;
               s4 = foldl (\<lambda>st name. client_addTool name st) s3 tool_names;
               s5 = foldl (\<lambda>st name. client_on name st) s4 event_names
           in s5\<lparr>items := conversation_items c\<rparr>))"

text \<open>
  React runs an effect after the first render, and after a later render only when an
  entry of its dependency array has changed.
\<close>

definition deps_changed :: "'d list option \<Rightarrow> 'd list \<Rightarrow> bool" where
  "deps_changed prev deps = (case prev of None \<Rightarrow> True | Some p \<Rightarrow> p \<noteq> deps)"

text \<open>
  The effects of one committed render, in the order the component declares them: the
  effect that creates the client when the ref holds none (it depends on the API key;
  being guarded, a repeated run changes nothing), then the setup effect, whose
  dependency array is empty.
\<close>

definition commit_render :: "conversation_config \<Rightarrow> console \<Rightarrow> console" where
  "commit_render cfg s =
     (let s1 = (if clientRef s = None then s\<lparr>clientRef := Some new_RealtimeClient\<rparr> else s)
      in if deps_changed (setup_deps s1) []
         then setup_effect cfg (s1\<lparr>setup_deps := Some []\<rparr>)
         else s1)"

section \<open>pages/ConsolePage.tsx: the tools\<close>

text \<open>
  What the handlers reach outside the page. A promise that rejects is \<open>Inl\<close> of the
  reason. \<open>toString\<close> is the conversion a template literal applies to a value,
  \<open>cheerio_body_html\<close> is \<^verbatim>\<open>cheerio.load\<close>, the removal of the non-content elements
  and \<^verbatim>\<open>$('body').html()\<close> (null is \<open>None\<close>), \<open>turndown\<close> the conversion to Markdown.
  \<^verbatim>\<open>encodeURIComponent\<close> throws only on a lone surrogate, which these 8-bit strings do
  not have.
\<close>

record http_response =
  resp_ok :: bool
  statusText :: string
  resp_json :: "jsval + jsval"
  resp_text :: "jsval + string"

record env =
  fetch :: "string \<Rightarrow> (string \<times> string) list \<Rightarrow> jsval + http_response"
  toString :: "jsval \<Rightarrow> jsval + string"
  encodeURIComponent :: "string \<Rightarrow> string"
  images_generate :: "string \<Rightarrow> jsval + jsval"
  cheerio_body_html :: "string \<Rightarrow> jsval + string option"
  turndown :: "string \<Rightarrow> jsval + string"
  currentTimeFormatted :: string

definition bindE :: "('e + 'a) \<Rightarrow> ('a \<Rightarrow> 'e + 'b) \<Rightarrow> 'e + 'b" where
  "bindE m f = (case m of Inl e \<Rightarrow> Inl e | Inr x \<Rightarrow> f x)"

definition ok_true :: jsval where
  "ok_true = JObj [(''ok'', JBool True)]"

definition ok_false :: "string \<Rightarrow> jsval" where
  "ok_false message = JObj [(''ok'', JBool False), (''message'', JStr message)]"

subsection \<open>set_memory, remove_memory, get_time, show_location, show_info\<close>

definition set_memory_handler :: "string \<times> string \<Rightarrow> console \<Rightarrow> (jsval + jsval) \<times> console" where
  "set_memory_handler args s =
     (Inr ok_true, s\<lparr>store := updateMemory (store s) (fst args) (snd args)\<rparr>)"

definition tool_set_memory :: "string \<times> string \<Rightarrow> console \<Rightarrow> (jsval + jsval) \<times> console" where
  "tool_set_memory args s = onTool args set_memory_handler s"

definition remove_memory_handler :: "string \<Rightarrow> console \<Rightarrow> (jsval + jsval) \<times> console" where
  "remove_memory_handler key s = (Inr ok_true, s\<lparr>store := removeMemory (store s) key\<rparr>)"

definition tool_remove_memory :: "string \<Rightarrow> console \<Rightarrow> (jsval + jsval) \<times> console" where
  "tool_remove_memory args s = onTool args remove_memory_handler s"

definition tool_get_time :: "env \<Rightarrow> unit \<Rightarrow> console \<Rightarrow> (jsval + jsval) \<times> console" where
  "tool_get_time ev args s =
     onTool args
       (\<lambda>_ st. (Inr (JObj [(''ok'', JBool True), (''value'', JStr (currentTimeFormatted ev))]), st)) s"

definition place :: "rat \<times> rat \<times> string \<Rightarrow> Coordinates" where
  "place args =
     \<lparr>lat = fst args, lng = fst (snd args), location = Some (snd (snd args)),
      temperature_reading = None, wind_speed = None\<rparr>"

definition show_location_handler ::
  "rat \<times> rat \<times> string \<Rightarrow> console \<Rightarrow> (jsval + jsval) \<times> console" where
  "show_location_handler args s =
     (Inr ok_true, s\<lparr>marker := Some (place args), coords := Some (place args)\<rparr>)"

definition tool_show_location ::
  "rat \<times> rat \<times> string \<Rightarrow> console \<Rightarrow> (jsval + jsval) \<times> console" where
  "tool_show_location args s = onTool args show_location_handler s"

definition tool_show_info :: "string \<Rightarrow> console \<Rightarrow> (jsval + jsval) \<times> console" where
  "tool_show_info args s =
     onTool args (\<lambda>info st. (Inr ok_true, st\<lparr>information := Some info\<rparr>)) s"

subsection \<open>get_weather\<close>

definition weather_url :: "string \<Rightarrow> string \<Rightarrow> string" where
  "weather_url la lo =
     ''https://api.open-meteo.com/v1/forecast?latitude='' @ la @ ''&longitude='' @ lo
     @ ''&current=temperature_2m,wind_speed_10m''"

definition weather_readings :: "jsval \<Rightarrow> jsval + Reading \<times> Reading" where
  "weather_readings json =
     bindE (get_prop json ''current'') (\<lambda>cur.
     bindE (get_prop cur ''temperature_2m'') (\<lambda>tv.
     bindE (get_prop json ''current_units'') (\<lambda>units.
     bindE (get_prop units ''temperature_2m'') (\<lambda>tu.
     bindE (get_prop cur ''wind_speed_10m'') (\<lambda>wv.
     bindE (get_prop units ''wind_speed_10m'') (\<lambda>wu.
       Inr (\<lparr>rd_value = tv, rd_units = tu\<rparr>, \<lparr>rd_value = wv, rd_units = wu\<rparr>)))))))"

definition get_weather_handler ::
  "env \<Rightarrow> rat \<times> rat \<times> string \<Rightarrow> console \<Rightarrow> (jsval + jsval) \<times> console" where
  "get_weather_handler ev args s0 =
     (let s1 = s0\<lparr>marker := Some (place args), coords := Some (place args)\<rparr>
      in case bindE (toString ev (JNum (fst args))) (\<lambda>la.
              bindE (toString ev (JNum (fst (snd args)))) (\<lambda>lo. Inr (weather_url la lo))) of
           Inl e \<Rightarrow> (Inl e, s1)
         | Inr url \<Rightarrow>
             (let s2 = call (Fetch url) s1
              in case bindE (fetch ev url []) resp_json of
                   Inl e \<Rightarrow> (Inl e, s2)
                 | Inr json \<Rightarrow>
                     (case weather_readings json of
                        Inl e \<Rightarrow> (Inl e, s2)
                      | Inr (t, w) \<Rightarrow>
                          (Inr json,
                           s2\<lparr>marker := Some ((place args)\<lparr>temperature_reading := Some t,
                                                              wind_speed := Some w\<rparr>)\<rparr>))))"

definition tool_get_weather ::
  "env \<Rightarrow> rat \<times> rat \<times> string \<Rightarrow> console \<Rightarrow> (jsval + jsval) \<times> console" where
  "tool_get_weather ev args s = onTool args (get_weather_handler ev) s"

subsection \<open>generate_image\<close>

text \<open>The element read \<^verbatim>\<open>v[0]\<close>.\<close>

fun get_first :: "jsval \<Rightarrow> jsval + jsval" where
  "get_first JUndefined = Inl (cannot_read JUndefined ''0'')"
| "get_first JNull = Inl (cannot_read JNull ''0'')"
| "get_first (JArr xs) = Inr (case xs of [] \<Rightarrow> JUndefined | x # _ \<Rightarrow> x)"
| "get_first (JStr str) = Inr (case str of [] \<Rightarrow> JUndefined | c # _ \<Rightarrow> JStr [c])"
| "get_first (JObj kvs) = Inr (case map_of kvs ''0'' of None \<Rightarrow> JUndefined | Some v \<Rightarrow> v)"
| "get_first _ = Inr JUndefined"

definition generate_image_handler ::
  "env \<Rightarrow> string \<Rightarrow> console \<Rightarrow> (jsval + jsval) \<times> console" where
  "generate_image_handler ev prompt s0 =
     (let s1 = call (ImagesGenerate prompt) s0
      in case bindE (images_generate ev prompt) (\<lambda>response.
              bindE (get_prop response ''data'') (\<lambda>d.
              bindE (get_first d) (\<lambda>d0. get_prop d0 ''url''))) of
           Inl e \<Rightarrow> (Inl e, s1)
         | Inr image_url \<Rightarrow>
             (Inr (JObj [(''ok'', JBool True), (''displayedToUser'', JBool True),
                         (''image_url'', image_url)]),
              s1\<lparr>displayedImage := (if truthy image_url then Some image_url else None)\<rparr>))"

definition tool_generate_image ::
  "env \<Rightarrow> string \<Rightarrow> console \<Rightarrow> (jsval + jsval) \<times> console" where
  "tool_generate_image ev args s = onTool args (generate_image_handler ev) s"


subsection \<open>search_related_topics\<close>

text \<open>\<^verbatim>\<open>v.FirstURL && v.Text\<close>, as the condition it is used for.\<close>

definition has_url_and_text :: "jsval \<Rightarrow> jsval + bool" where
  "has_url_and_text v =
     bindE (get_prop v ''FirstURL'') (\<lambda>u.
       if truthy u then bindE (get_prop v ''Text'') (\<lambda>t. Inr (truthy t)) else Inr False)"

text \<open>The object built for a topic; \<^verbatim>\<open>v.Icon?.URL || null\<close> is its \<^verbatim>\<open>icon_url\<close>.\<close>

definition topic_object :: "jsval \<Rightarrow> jsval + jsval" where
  "topic_object v =
     bindE (get_prop v ''Text'') (\<lambda>title.
     bindE (get_prop v ''FirstURL'') (\<lambda>url.
     bindE (get_prop v ''Text'') (\<lambda>snippet.
     bindE (get_prop v ''Icon'') (\<lambda>icon.
     bindE (if nullish icon then Inr JUndefined else get_prop icon ''URL'') (\<lambda>icon_url.
       Inr (JObj [(''title'', title), (''url'', url), (''snippet'', snippet),
                  (''icon_url'', if truthy icon_url then icon_url else JNull)]))))))"

text \<open>\<^verbatim>\<open>Topics.filter(...)\<close> and \<^verbatim>\<open>.map(...)\<close>: a callback that throws ends the pass.\<close>

fun filter_subtopics :: "jsval list \<Rightarrow> jsval + jsval list" where
  "filter_subtopics [] = Inr []"
| "filter_subtopics (v # vs) =
     bindE (has_url_and_text v) (\<lambda>keep.
     bindE (filter_subtopics vs) (\<lambda>rest. Inr (if keep then v # rest else rest)))"

fun map_subtopics :: "jsval list \<Rightarrow> jsval + jsval list" where
  "map_subtopics [] = Inr []"
| "map_subtopics (v # vs) =
     bindE (topic_object v) (\<lambda>obj.
     bindE (map_subtopics vs) (\<lambda>rest. Inr (obj # rest)))"

text \<open>One pass of the \<^verbatim>\<open>forEach\<close> callback: what it pushes for a topic.\<close>

definition topic_entries :: "jsval \<Rightarrow> jsval + jsval list" where
  "topic_entries topic =
     bindE (get_prop topic ''Topics'') (\<lambda>subs.
       if truthy subs then
         bindE (get_prop topic ''Name'') (\<lambda>name.
           case subs of
             JArr vs \<Rightarrow>
               bindE (filter_subtopics vs) (\<lambda>kept.
               bindE (map_subtopics kept) (\<lambda>objs.
                 Inr [JObj [(''category'', name), (''topics'', JArr objs)]]))
           | _ \<Rightarrow> Inl (not_a_function ''topic.Topics.filter''))
       else
         bindE (has_url_and_text topic) (\<lambda>keep.
           if keep then bindE (topic_object topic) (\<lambda>obj. Inr [obj]) else Inr []))"

fun for_each_topic :: "jsval list \<Rightarrow> jsval + jsval list" where
  "for_each_topic [] = Inr []"
| "for_each_topic (t # ts) =
     bindE (topic_entries t) (\<lambda>pushed.
     bindE (for_each_topic ts) (\<lambda>rest. Inr (pushed @ rest)))"

text \<open>\<^verbatim>\<open>data.RelatedTopics?.forEach(...)\<close>, giving the array \<^verbatim>\<open>relatedTopics\<close>.\<close>

definition related_topics :: "jsval \<Rightarrow> jsval + jsval list" where
  "related_topics data =
     bindE (get_prop data ''RelatedTopics'') (\<lambda>rt.
       if nullish rt then Inr []
       else case rt of
              JArr ts \<Rightarrow> for_each_topic ts
            | _ \<Rightarrow> Inl (not_a_function ''data.RelatedTopics.forEach''))"

definition related_topics_url :: "env \<Rightarrow> string \<Rightarrow> string" where
  "related_topics_url ev query =
     ''https://api.duckduckgo.com/?q='' @ encodeURIComponent ev query @ ''&format=json''"

text \<open>The handler's \<^verbatim>\<open>try\<close> block.\<close>

definition search_related_topics_try :: "env \<Rightarrow> string \<Rightarrow> jsval + jsval" where
  "search_related_topics_try ev query =
     bindE (fetch ev (related_topics_url ev query)
              [(''accept-language'', ''de-DE,en-US,en;q=0.9'')]) (\<lambda>response.
     bindE (resp_json response) (\<lambda>data.
     bindE (related_topics data) (\<lambda>relatedTopics.
       Inr (if relatedTopics \<noteq> []
            then JObj [(''ok'', JBool True), (''relatedTopics'', JArr relatedTopics)]
            else ok_false ''No related topics found''))))"

definition search_related_topics_handler ::
  "env \<Rightarrow> string \<Rightarrow> console \<Rightarrow> (jsval + jsval) \<times> console" where
  "search_related_topics_handler ev query s =
     (case search_related_topics_try ev query of
        Inl error \<Rightarrow> Inr (ok_false ''Error retrieving related topics'')
      | Inr result \<Rightarrow> Inr result,
      call (Fetch (related_topics_url ev query)) s)"

definition tool_search_related_topics ::
  "env \<Rightarrow> string \<Rightarrow> console \<Rightarrow> (jsval + jsval) \<times> console" where
  "tool_search_related_topics ev args s = onTool args (search_related_topics_handler ev) s"

subsection \<open>wikipedia_search\<close>

text \<open>
  \<^verbatim>\<open>snippet.replace(/<[^>]*>?/gm, '')\<close>: from each \<^verbatim>\<open><\<close> everything up to and including
  the next \<^verbatim>\<open>>\<close>, or up to the end when there is none, is removed. The flag says
  whether the scan is inside such a match.
\<close>

fun strip_tags_from :: "bool \<Rightarrow> string \<Rightarrow> string" where
  "strip_tags_from inside [] = []"
| "strip_tags_from False (c # cs) =
     (if c = CHR ''<'' then strip_tags_from True cs else c # strip_tags_from False cs)"
| "strip_tags_from True (c # cs) =
     (if c = CHR ''>'' then strip_tags_from False cs else strip_tags_from True cs)"

definition strip_tags :: "jsval \<Rightarrow> jsval + string" where
  "strip_tags snippet =
     (case snippet of
        JStr str \<Rightarrow> Inr (strip_tags_from False str)
      | JUndefined \<Rightarrow> Inl (cannot_read JUndefined ''replace'')
      | JNull \<Rightarrow> Inl (cannot_read JNull ''replace'')
      | _ \<Rightarrow> Inl (not_a_function ''result.snippet.replace''))"

definition search_result :: "env \<Rightarrow> string \<Rightarrow> jsval \<Rightarrow> jsval + jsval" where
  "search_result ev language result =
     bindE (get_prop result ''title'') (\<lambda>title.
     bindE (get_prop result ''snippet'') (\<lambda>snippet.
     bindE (strip_tags snippet) (\<lambda>stripped.
     bindE (get_prop result ''pageid'') (\<lambda>pageid.
     bindE (toString ev pageid) (\<lambda>pid.
       Inr (JObj [(''title'', title), (''snippet'', JStr stripped), (''pageid'', pageid),
                  (''url'', JStr (''https://'' @ language @ ''.wikipedia.org/?curid='' @ pid))]))))))"

fun map_search_results :: "env \<Rightarrow> string \<Rightarrow> jsval list \<Rightarrow> jsval + jsval list" where
  "map_search_results ev language [] = Inr []"
| "map_search_results ev language (r # rs) =
     bindE (search_result ev language r) (\<lambda>obj.
     bindE (map_search_results ev language rs) (\<lambda>rest. Inr (obj # rest)))"

text \<open>\<^verbatim>\<open>data?.query?.search?.map(...)\<close>; \<open>None\<close> is undefined.\<close>

definition search_results :: "env \<Rightarrow> string \<Rightarrow> jsval \<Rightarrow> jsval + jsval list option" where
  "search_results ev language data =
     (if nullish data then Inr None
      else bindE (get_prop data ''query'') (\<lambda>q.
        if nullish q then Inr None
        else bindE (get_prop q ''search'') (\<lambda>found.
          if nullish found then Inr None
          else case found of
                 JArr rs \<Rightarrow> bindE (map_search_results ev language rs) (\<lambda>objs. Inr (Some objs))
               | _ \<Rightarrow> Inl (not_a_function ''data.query.search.map''))))"

definition wikipedia_url :: "env \<Rightarrow> string \<Rightarrow> string \<Rightarrow> string" where
  "wikipedia_url ev language query =
     ''https://'' @ language @ ''.wikipedia.org/w/api.php?action=query&list=search&srsearch=''
     @ encodeURIComponent ev query @ ''&format=json&origin=*''"

definition wikipedia_search_try :: "env \<Rightarrow> string \<Rightarrow> string \<Rightarrow> jsval + jsval" where
  "wikipedia_search_try ev language query =
     bindE (fetch ev (wikipedia_url ev language query) []) (\<lambda>response.
     bindE (resp_json response) (\<lambda>data.
     bindE (search_results ev language data) (\<lambda>searchResults.
       Inr (case searchResults of
              None \<Rightarrow> ok_false ''No search results found''
            | Some objs \<Rightarrow>
                if objs \<noteq> []
                then JObj [(''ok'', JBool True), (''searchResults'', JArr objs)]
                else ok_false ''No search results found''))))"

text \<open>
  The handler is registered as it is, without \<^verbatim>\<open>_onTool\<close>. The arguments are
  \<^verbatim>\<open>{query, language = 'en'}\<close>; an absent language is \<open>None\<close>.
\<close>

definition tool_wikipedia_search ::
  "env \<Rightarrow> string \<times> string option \<Rightarrow> console \<Rightarrow> (jsval + jsval) \<times> console" where
  "tool_wikipedia_search ev args s =
     (let query = fst args;
          language = (case snd args of None \<Rightarrow> ''en'' | Some l \<Rightarrow> l)
      in (case wikipedia_search_try ev language query of
            Inl error \<Rightarrow> Inr (ok_false ''Error searching Wikipedia'')
          | Inr result \<Rightarrow> Inr result,
          call (Fetch (wikipedia_url ev language query)) s))"

subsection \<open>webpage_scrape\<close>

text \<open>
  The white space \<^verbatim>\<open>String.prototype.trim\<close> removes, among 8-bit characters: tab, line
  feed, vertical tab, form feed, carriage return, space and the no-break space.
\<close>

definition js_whitespace :: "char \<Rightarrow> bool" where
  "js_whitespace c = (c \<in> {CHR 0x09, CHR 0x0A, CHR 0x0B, CHR 0x0C, CHR 0x0D, CHR 0x20, CHR 0xA0})"

definition js_trim :: "string \<Rightarrow> string" where
  "js_trim str = rev (dropWhile js_whitespace (rev (dropWhile js_whitespace str)))"

definition scrape_url :: "env \<Rightarrow> string \<Rightarrow> string" where
  "scrape_url ev url = ''http://localhost:8082/scrape?url='' @ encodeURIComponent ev url"

text \<open>
  The handler with its \<^verbatim>\<open>try\<close> and \<^verbatim>\<open>catch\<close>; it is registered without \<^verbatim>\<open>_onTool\<close>.
  Every exit of the \<^verbatim>\<open>try\<close> block keeps the calls made up to it.
\<close>

definition tool_webpage_scrape ::
  "env \<Rightarrow> string \<Rightarrow> console \<Rightarrow> (jsval + jsval) \<times> console" where
  "tool_webpage_scrape ev url s0 =
     (let failed = Inr (ok_false ''Error scraping webpage'');
          s1 = call (Fetch (scrape_url ev url)) s0
      in case fetch ev (scrape_url ev url) [] of
           Inl error \<Rightarrow> (failed, s1)
         | Inr response \<Rightarrow>
             if \<not> resp_ok response then (failed, s1)
             else case resp_text response of
                    Inl error \<Rightarrow> (failed, s1)
                  | Inr htmlContent \<Rightarrow>
                      if js_trim htmlContent = []
                      then (Inr (ok_false ''No text content found on the webpage''), s1)
                      else
                        (let s2 = call CheerioLoad s1
                         in case cheerio_body_html ev htmlContent of
                              Inl error \<Rightarrow> (failed, s2)
                            | Inr body \<Rightarrow>
                                (let cleanedHtmlContent = (case body of None \<Rightarrow> [] | Some h \<Rightarrow> h);
                                     s3 = call Turndown s2
                                 in case turndown ev cleanedHtmlContent of
                                      Inl error \<Rightarrow> (failed, s3)
                                    | Inr markdownContent \<Rightarrow>
                                        (Inr (JObj [(''ok'', JBool True),
                                                    (''markdownContent'', JStr markdownContent)]),
                                         s3))))"

section \<open>proxy-server/proxy.ts\<close>

text \<open>
  A request as the routes read it: \<^verbatim>\<open>req.query\<close>, parsed by Express (a value is a
  string, an array or a nested object). The answer is the status and what was sent; the
  second component of a route's result lists the URLs it fetched from.
\<close>

record express_request =
  query :: "(string \<times> jsval) list"

datatype response_body = SendText string | SendJson jsval

record express_response =
  status :: nat
  body :: response_body

definition query_param :: "express_request \<Rightarrow> string \<Rightarrow> jsval" where
  "query_param req name = (case map_of (query req) name of None \<Rightarrow> JUndefined | Some v \<Rightarrow> v)"

definition duckduckgo_url :: "env \<Rightarrow> string \<Rightarrow> string" where
  "duckduckgo_url ev q = ''https://api.duckduckgo.com/?q='' @ encodeURIComponent ev q @ ''&format=json''"

definition get_proxy :: "env \<Rightarrow> express_request \<Rightarrow> express_response \<times> string list" where
  "get_proxy ev req =
     (let q = query_param req ''q''
      in if \<not> truthy q
         then (\<lparr>status = 400,
                body = SendText (''Query parameter '' @ [CHR 0x22] @ ''q'' @ [CHR 0x22] @ '' is required'')\<rparr>,
               [])
         else
           (let failed = \<lparr>status = 500, body = SendText ''Error fetching data from DuckDuckGo''\<rparr>
            in case toString ev q of
                 Inl error \<Rightarrow> (failed, [])
               | Inr qs \<Rightarrow>
                   (case bindE (fetch ev (duckduckgo_url ev qs)
                                  [(''Accept-Language'', ''de-DE,en-US,en;q=0.5'')]) resp_json of
                      Inl error \<Rightarrow> (failed, [duckduckgo_url ev qs])
                    | Inr data \<Rightarrow>
                        (\<lparr>status = 200, body = SendJson data\<rparr>, [duckduckgo_url ev qs]))))"

definition user_agent :: string where
  "user_agent = ''Mozilla/5.0 (Windows NT 10.0; Win64; x64) AppleWebKit/537.36 (KHTML, like Gecko) Chrome/91.0.4472.124 Safari/537.36''"

definition get_scrape :: "env \<Rightarrow> express_request \<Rightarrow> express_response \<times> string list" where
  "get_scrape ev req =
     (let url = query_param req ''url''
      in if \<not> truthy url
         then (\<lparr>status = 400,
                body = SendText (''Query parameter '' @ [CHR 0x22] @ ''url'' @ [CHR 0x22] @ '' is required'')\<rparr>,
               [])
         else
           (let failed = \<lparr>status = 500, body = SendText ''Error scraping webpage''\<rparr>
            in case toString ev url of
                 Inl error \<Rightarrow> (failed, [])
               | Inr target \<Rightarrow>
                   (case fetch ev target [(''User-Agent'', user_agent)] of
                      Inl error \<Rightarrow> (failed, [target])
                    | Inr response \<Rightarrow>
                        if \<not> resp_ok response then (failed, [target])
                        else case resp_text response of
                               Inl error \<Rightarrow> (failed, [target])
                             | Inr html \<Rightarrow> (\<lparr>status = 200, body = SendText html\<rparr>, [target]))))"


section \<open>Memory tool calls and rendering\<close>

text \<open>
  A \<^verbatim>\<open>set_memory\<close> or \<^verbatim>\<open>remove_memory\<close> call of the agent: the tool runs, the store
  changes, and the component, which selects \<^verbatim>\<open>memory\<close> from the store, renders again.
\<close>

datatype memory_call = SetMemory string string | RemoveMemory string

fun agent_memory_call :: "conversation_config \<Rightarrow> console \<Rightarrow> memory_call \<Rightarrow> console" where
  "agent_memory_call cfg s (SetMemory key val) = commit_render cfg (snd (tool_set_memory (key, val) s))"
| "agent_memory_call cfg s (RemoveMemory key) = commit_render cfg (snd (tool_remove_memory key s))"

definition agent_memory_calls :: "conversation_config \<Rightarrow> memory_call list \<Rightarrow> console \<Rightarrow> console" where
  "agent_memory_calls cfg cs s = foldl (agent_memory_call cfg) s cs"

text \<open>The instructions the transport holds.\<close>

definition pushed_instructions :: "console \<Rightarrow> string option" where
  "pushed_instructions s =
     (case clientRef s of None \<Rightarrow> None | Some c \<Rightarrow> cfg_instructions (sessionConfig c))"


section \<open>Concrete handlers and inputs\<close>

text \<open>A handler whose promise rejects with no reason, as \<^verbatim>\<open>() => Promise.reject(null)\<close>.\<close>

definition reject_with_null :: "jsval \<Rightarrow> unit \<Rightarrow> (jsval + jsval) \<times> unit" where
  "reject_with_null args s = (Inl JNull, s)"

text \<open>The handler of the spec's scenario, \<^verbatim>\<open>args => ({echo: args.text})\<close>.\<close>

definition echo_handler :: "jsval \<Rightarrow> unit \<Rightarrow> (jsval + jsval) \<times> unit" where
  "echo_handler args s =
     (case get_prop args ''text'' of
        Inl e \<Rightarrow> (Inl e, s)
      | Inr t \<Rightarrow> (Inr (JObj [(''echo'', t)]), s))"


text \<open>Two server events as the transport emits them, with no counter.\<close>

definition audio_delta :: RealtimeEvent where
  "audio_delta =
     \<lparr>time = ''2024-10-20T10:00:00.000Z'', source = server, count = None,
      event = \<lparr>ev_type = Some ''response.audio.delta'', ev_fields = []\<rparr>\<rparr>"

definition response_done :: RealtimeEvent where
  "response_done =
     \<lparr>time = ''2024-10-20T10:00:01.000Z'', source = server, count = None,
      event = \<lparr>ev_type = Some ''response.done'', ev_fields = []\<rparr>\<rparr>"


text \<open>
  A page in a running session: connected in server_vad mode, the recorder recording, a
  track of the agent's answer playing, one memory entry in the store.
\<close>

definition live_client :: RealtimeClient where
  "live_client =
     new_RealtimeClient\<lparr>connected := True,
       sessionConfig := (sessionConfig new_RealtimeClient)\<lparr>cfg_turn_detection := Some ''server_vad''\<rparr>\<rparr>"

definition live_session :: console where
  "live_session =
     (initial_console [(''name'', ''Alex'')])
       \<lparr>items := [JObj [(''id'', JStr ''item_A1'')]],
        realtimeEvents := [audio_delta],
        isConnected := True,
        canPushToTalk := False,
        marker := Some default_coords,
        clientRef := Some live_client,
        wavRecorder := \<lparr>rec_status = recording\<rparr>,
        wavStreamPlayer := \<lparr>playing = Some \<lparr>trackId = ''item_A1'', offset = 4800\<rparr>\<rparr>,
        setup_deps := Some []\<rparr>"

text \<open>
  The same session in manual mode, the recorder paused and the track still playing: the
  state in which the operator presses push-to-talk over the agent's answer.
\<close>

definition push_to_talk_session :: console where
  "push_to_talk_session =
     live_session
       \<lparr>canPushToTalk := True,
        clientRef := Some (live_client\<lparr>sessionConfig :=
                      (sessionConfig live_client)\<lparr>cfg_turn_detection := None\<rparr>\<rparr>),
        wavRecorder := \<lparr>rec_status = paused\<rparr>\<rparr>"

text \<open>
  Environments for the examples. Their \<open>toString\<close> and \<open>encodeURIComponent\<close> are
  given on the values the examples pass (undefined, strings of unreserved characters and
  the two coordinates), where they agree with the language.
\<close>

definition example_toString :: "jsval \<Rightarrow> jsval + string" where
  "example_toString v =
     (case v of
        JStr str \<Rightarrow> Inr str
      | JUndefined \<Rightarrow> Inr ''undefined''
      | JNull \<Rightarrow> Inr ''null''
      | JBool b \<Rightarrow> Inr (if b then ''true'' else ''false'')
      | JNum n \<Rightarrow> Inr (if n = 52.52 then ''52.52'' else if n = 13.41 then ''13.41'' else ''0'')
      | _ \<Rightarrow> Inr ''[object Object]'')"

text \<open>No network: every request rejects as \<^verbatim>\<open>fetch\<close> does when the host is unreachable.\<close>

definition offline_env :: env where
  "offline_env =
     \<lparr>fetch = (\<lambda>url headers. Inl (js_error ''TypeError'' ''Failed to fetch'')),
      toString = example_toString,
      encodeURIComponent = (\<lambda>str. str),
      images_generate = (\<lambda>prompt. Inl (js_error ''APIConnectionError'' ''Connection error.'')),
      cheerio_body_html = (\<lambda>html. Inr None),
      turndown = (\<lambda>html. Inr html),
      currentTimeFormatted = ''Sunday, October 20, 2024 at 10:00:00 AM''\<rparr>"

text \<open>
  Every request is answered 500 with a JSON body that can be read as a search answer:
  one entry, with a snippet and neither title nor page id.
\<close>

definition untitled_answer :: http_response where
  "untitled_answer =
     \<lparr>resp_ok = False, statusText = ''Internal Server Error'',
      resp_json = Inr (JObj [(''query'',
                    JObj [(''search'', JArr [JObj [(''snippet'', JStr ''<b>cat</b>'')]])])]),
      resp_text = Inr []\<rparr>"

definition untitled_answer_env :: env where
  "untitled_answer_env = offline_env\<lparr>fetch := (\<lambda>url headers. Inr untitled_answer)\<rparr>"

text \<open>
  Every request is answered 200 with a body of white space only (and no JSON); the HTML
  parser and the Markdown converter would throw if they were called.
\<close>

definition blank_page :: http_response where
  "blank_page =
     \<lparr>resp_ok = True, statusText = ''OK'',
      resp_json = Inl (js_error ''SyntaxError'' ''Unexpected end of JSON input''),
      resp_text = Inr [CHR 0x20, CHR 0x0A, CHR 0x09]\<rparr>"

definition blank_page_env :: env where
  "blank_page_env =
     \<lparr>fetch = (\<lambda>url headers. Inr blank_page),
      toString = example_toString,
      encodeURIComponent = (\<lambda>str. str),
      images_generate = (\<lambda>prompt. Inl (js_error ''APIConnectionError'' ''Connection error.'')),
      cheerio_body_html = (\<lambda>html. Inl (js_error ''Error'' ''cheerio.load was called'')),
      turndown = (\<lambda>html. Inl (js_error ''Error'' ''turndown was called'')),
      currentTimeFormatted = ''Sunday, October 20, 2024 at 10:00:00 AM''\<rparr>"


text \<open>
  The configuration of the examples (the instructions cut down to their first two
  lines), the page after its first render with an empty store, and that page after the
  agent's call \<^verbatim>\<open>set_memory({key: "name", value: "Alex"})\<close>.
\<close>

definition example_config :: conversation_config where
  "example_config =
     \<lparr>instructions = ''System settings:'' @ [CHR 0x0A] @ ''Tool use: enabled.'' @ [CHR 0x0A],
      startingPrompt = ''Hallo'', voice = ''alloy'', temperature = 0.8\<rparr>"

definition fresh_page :: console where
  "fresh_page = commit_render example_config (initial_console [])"

definition page_after_set_memory :: console where
  "page_after_set_memory = agent_memory_call example_config fresh_page (SetMemory ''name'' ''Alex'')"


section \<open>Tool dispatch through \<open>onTool\<close>\<close>

lemma get_prop_not_nullish: "\<not> nullish v \<Longrightarrow> \<exists>m. get_prop v p = Inr m"
  by (cases v) simp_all

text \<open>
  C1 does not hold of the code. The catch block of \<^verbatim>\<open>_onTool\<close> is there to turn every
  failure into \<^verbatim>\<open>{error: message}\<close>, but it reads \<^verbatim>\<open>error.message\<close> without a guard:
  for a handler whose promise rejects with null (or undefined) the read throws a
  TypeError inside the catch block and \<^verbatim>\<open>_onTool\<close> itself rejects.
\<close>

theorem onTool_rejects_on_null:
  "fst (onTool (JObj []) reject_with_null ()) = Inl (cannot_read JNull ''message'')"
  by (simp add: onTool_def reject_with_null_def)

text \<open>
  On every other input the guard works. For every handler, argument and state in which
  the handler does not throw null or undefined, \<open>onTool\<close> returns exactly one result and
  does not throw: a value thrown by the handler gives \<^verbatim>\<open>{error: <its message property>}\<close>,
  a handler that returns null or undefined gives \<^verbatim>\<open>{success: true}\<close>, and any other
  return value is handed back unchanged. The state is the one the handler left.
\<close>

lemma onTool_total:
  assumes "\<And>e. fst (handler args s) = Inl e \<Longrightarrow> \<not> nullish e"
  shows "(\<exists>r. onTool args handler s = (Inr r, snd (handler args s))) \<and>
         (\<forall>e. fst (handler args s) = Inl e \<longrightarrow>
            (\<exists>m. get_prop e ''message'' = Inr m \<and>
                 fst (onTool args handler s) = Inr (JObj [(''error'', m)]))) \<and>
         (\<forall>v. fst (handler args s) = Inr v \<longrightarrow>
            fst (onTool args handler s) =
              Inr (if nullish v then JObj [(''success'', JBool True)] else v))"
proof (cases "handler args s")
  case (Pair res s')
  show ?thesis
  proof (cases res)
    case (Inl e)
    with Pair assms have "\<not> nullish e" by simp
    then obtain m where m: "get_prop e ''message'' = Inr m"
      using get_prop_not_nullish by blast
    with Pair Inl show ?thesis
      by (simp add: onTool_def)
  next
    case (Inr v)
    with Pair show ?thesis
      by (simp add: onTool_def)
  qed
qed

text \<open>
  The spec's scenario, the echo handler called with \<^verbatim>\<open>{text: "hi"}\<close>, and the same
  handler called with null, where it throws a TypeError.
\<close>

lemma onTool_total_example:
  "fst (onTool (JObj [(''text'', JStr ''hi'')]) echo_handler ()) =
     Inr (JObj [(''echo'', JStr ''hi'')]) \<and>
   fst (onTool JNull echo_handler ()) =
     Inr (JObj [(''error'', JStr (''Cannot read properties of null (reading ''
                                   @ [CHR 0x27] @ ''text'' @ [CHR 0x27] @ '')''))])"
proof -
  let ?args = "JObj [(''text'', JStr ''hi'')]"
  have val: "echo_handler ?args () = (Inr (JObj [(''echo'', JStr ''hi'')]), ())"
    by (simp add: echo_handler_def)
  have h: "\<And>e. fst (echo_handler ?args ()) = Inl e \<Longrightarrow> \<not> nullish e"
    by (simp add: val)
  have val': "echo_handler JNull () = (Inl (cannot_read JNull ''text''), ())"
    by (simp add: echo_handler_def)
  have h': "\<And>e. fst (echo_handler JNull ()) = Inl e \<Longrightarrow> \<not> nullish e"
    by (auto simp: val' cannot_read_def js_error_def)
  from onTool_total [of echo_handler ?args "()", OF h] val
    onTool_total [of echo_handler JNull "()", OF h'] val'
  show ?thesis
    by (simp add: cannot_read_def js_error_def)
qed

section \<open>The event log\<close>

lemma on_realtime_events_append:
  "on_realtime_events (xs @ ys) l =
     (case on_realtime_events xs l of Inl e \<Rightarrow> Inl e | Inr l' \<Rightarrow> on_realtime_events ys l')"
  by (induction xs arbitrary: l) (auto split: sum.splits)

lemma runs_nonempty: "es \<noteq> [] \<Longrightarrow> runs es \<noteq> []"
  by (cases es) (auto split: list.splits)

lemma runs_snoc:
  "runs (es @ [e]) =
     (if es = [] then [(e, 1)]
      else if ev_type (event (fst (last (runs es)))) = ev_type (event e)
        then butlast (runs es) @ [(fst (last (runs es)), Suc (snd (last (runs es))))]
        else runs es @ [(e, 1)])"
proof (induction es)
  case Nil
  then show ?case by simp
next
  case (Cons x xs)
  show ?case
  proof (cases "xs = []")
    case True
    then show ?thesis by simp
  next
    case False
    then have ne: "runs xs \<noteq> []" by (rule runs_nonempty)
    then obtain f n rest where r: "runs xs = (f, n) # rest"
      by (cases "runs xs") auto
    show ?thesis
    proof (cases "rest = []")
      case True
      with Cons False r show ?thesis
        by (auto split: list.splits if_splits)
    next
      case rne: False
      then obtain g m rest' where r': "rest = (g, m) # rest'"
        by (cases rest) auto
      with Cons False r show ?thesis
        by (auto split: list.splits if_splits)
    qed
  qed
qed

lemma runs_props:
  "(f, n) \<in> set (runs es) \<Longrightarrow> f \<in> set es \<and> 1 \<le> n"
  by (induction es arbitrary: f n) (auto split: list.splits if_splits)


lemma entry_of_run_type [simp]: "ev_type (event (entry_of_run r)) = ev_type (event (fst r))"
  by (simp add: entry_of_run_def)

lemma entry_of_run_bump:
  assumes "count f = None" and "1 \<le> n"
  shows "(entry_of_run (f, n))\<lparr>count :=
           Some ((case count (entry_of_run (f, n)) of None \<Rightarrow> 0 | Some c \<Rightarrow> c) + 1)\<rparr>
         = entry_of_run (f, Suc n)"
  using assms by (auto simp: entry_of_run_def)

lemma runs_types:
  "concat (map (\<lambda>r. replicate (snd r) (ev_type (event (fst r)))) (runs es)) =
     map (\<lambda>e. ev_type (event e)) es"
  by (induction es) (auto split: list.splits)

lemma runs_distinct_adj:
  "distinct_adj (map (\<lambda>r. ev_type (event (fst r))) (runs es))"
  by (induction es) (auto split: list.splits)

text \<open>
  C3, as the claim states it, fails: after two consecutive events of one type the entry's
  counter is 1, not the run length 2.
\<close>

theorem log_counter_counterexample:
  "on_realtime_events [audio_delta, audio_delta] [] = Inr [audio_delta\<lparr>count := Some 1\<rparr>] \<and>
   on_realtime_events [audio_delta, audio_delta] [] \<noteq> Inr [audio_delta\<lparr>count := Some 2\<rparr>]"
  by (simp add: on_realtime_event_def audio_delta_def)

text \<open>
  C3, amended. For any sequence of inbound events that carry a type and arrive with the
  counter unset, the handler never throws and the log holds one entry per maximal run of
  consecutive events of one type, in arrival order: the run's first event, its counter
  unset for a run of one event and equal to the run length minus one otherwise. The runs
  are those of the stream (their types and lengths spell out the stream's types), and
  neighbouring entries differ in type, so repeats that are not consecutive stay apart.
\<close>

theorem log_coalesces_runs:
  assumes "\<forall>e \<in> set es. ev_type (event e) \<noteq> None \<and> count e = None"
  shows "on_realtime_events es [] = Inr (map entry_of_run (runs es)) \<and>
         concat (map (\<lambda>r. replicate (snd r) (ev_type (event (fst r)))) (runs es)) =
           map (\<lambda>e. ev_type (event e)) es \<and>
         distinct_adj (map (\<lambda>r. ev_type (event (fst r))) (runs es))"
proof -
  from assms have "on_realtime_events es [] = Inr (map entry_of_run (runs es))"
  proof (induction es rule: rev_induct)
    case Nil
    then show ?case by simp
  next
    case (snoc e es)
    then have ih: "on_realtime_events es [] = Inr (map entry_of_run (runs es))"
      by simp
    have step: "on_realtime_events (es @ [e]) [] = on_realtime_event e (map entry_of_run (runs es))"
      by (simp add: on_realtime_events_append ih split: sum.splits)
    show ?case
    proof (cases "es = []")
      case True
      with snoc.prems step show ?thesis
        by (simp add: on_realtime_event_def entry_of_run_def)
    next
      case False
      then have ne: "runs es \<noteq> []" by (rule runs_nonempty)
      obtain f n where l: "last (runs es) = (f, n)"
        by (cases "last (runs es)")
      with ne have "(f, n) \<in> set (runs es)"
        using last_in_set by metis
      then have "f \<in> set es" and n: "1 \<le> n"
        using runs_props by blast+
      with snoc.prems have cf: "count f = None" by simp
      have lastmap: "last (map entry_of_run (runs es)) = entry_of_run (f, n)"
        using ne l by (simp add: last_map)
      have butlastmap: "butlast (map entry_of_run (runs es)) = map entry_of_run (butlast (runs es))"
        by (simp add: map_butlast)
      show ?thesis
        using False ne l step lastmap butlastmap entry_of_run_bump [OF cf n]
        by (simp add: on_realtime_event_def runs_snoc Let_def entry_of_run_def)
    qed
  qed
  then show ?thesis
    using runs_types runs_distinct_adj by blast
qed

text \<open>Three audio deltas, a \<open>response.done\<close> and one more audio delta: three entries.\<close>

theorem log_coalesces_runs_witness:
  "on_realtime_events [audio_delta, audio_delta, audio_delta, response_done, audio_delta] [] =
     Inr [audio_delta\<lparr>count := Some 2\<rparr>, response_done, audio_delta]"
proof -
  let ?es = "[audio_delta, audio_delta, audio_delta, response_done, audio_delta]"
  have h: "\<forall>e \<in> set ?es. ev_type (event e) \<noteq> None \<and> count e = None"
    by (simp add: audio_delta_def response_done_def)
  have r: "map entry_of_run (runs ?es) = [audio_delta\<lparr>count := Some 2\<rparr>, response_done, audio_delta]"
    by (simp add: entry_of_run_def audio_delta_def response_done_def)
  from log_coalesces_runs [OF h] r show ?thesis
    by simp
qed

section \<open>Session controls\<close>

lemmas step_defs =
  call_def recorder_record_def recorder_pause_def recorder_end_def player_interrupt_def
  interrupt_def client_updateSession_def client_disconnect_def client_isConnected_def

text \<open>
  Whatever is playing, \<open>startRecording\<close> interrupts the player and starts the recorder,
  and sends no cancellation: the identifier it tests is read from the promise.
\<close>

lemma startRecording_calls:
  assumes "clientRef s = Some c"
  shows "calls (startRecording s) = calls s @ [PlayerInterrupt, RecorderRecord] \<and>
         playing (wavStreamPlayer (startRecording s)) = None \<and>
         rec_status (wavRecorder (startRecording s)) = recording \<and>
         isRecording (startRecording s)"
  using assms by (simp add: startRecording_def step_defs promise_prop_def Let_def)

text \<open>The awaiting handler cancels the track the player reports.\<close>

lemma on_conversation_interrupted_calls:
  assumes "playing (wavStreamPlayer s) = Some t" and "trackId t \<noteq> []"
  shows "calls (on_conversation_interrupted s) =
           calls s @ [PlayerInterrupt,
                      ClientCancelResponse (JStr (trackId t)) (JNum (of_nat (offset t)))]"
  using assms by (simp add: on_conversation_interrupted_def step_defs Let_def)

text \<open>
  C4 does not hold of the code. Push-to-talk is pressed while track \<open>item_A1\<close> is
  playing at sample 4800: the playback is interrupted first and the recording starts,
  but no cancellation is issued in between. The \<^verbatim>\<open>conversation.interrupted\<close> handler,
  which awaits the same call, issues the cancellation with the track's identifier and
  offset from the same state.
\<close>

theorem startRecording_sends_no_cancellation:
  "playing (wavStreamPlayer push_to_talk_session) = Some \<lparr>trackId = ''item_A1'', offset = 4800\<rparr> \<and>
   calls (startRecording push_to_talk_session) = [PlayerInterrupt, RecorderRecord] \<and>
   calls (on_conversation_interrupted push_to_talk_session) =
     [PlayerInterrupt, ClientCancelResponse (JStr ''item_A1'') (JNum 4800)]"
proof -
  have a: "clientRef push_to_talk_session =
             Some (live_client\<lparr>sessionConfig :=
                     (sessionConfig live_client)\<lparr>cfg_turn_detection := None\<rparr>\<rparr>)"
    by (simp add: push_to_talk_session_def)
  have b: "playing (wavStreamPlayer push_to_talk_session) =
             Some \<lparr>trackId = ''item_A1'', offset = 4800\<rparr>"
    by (simp add: push_to_talk_session_def live_session_def)
  have c: "trackId \<lparr>trackId = ''item_A1'', offset = 4800\<rparr> \<noteq> []"
    by simp
  have d: "calls push_to_talk_session = []"
    by (simp add: push_to_talk_session_def live_session_def initial_console_def)
  from startRecording_calls [OF a] on_conversation_interrupted_calls [OF b c] b d
  show ?thesis
    by simp
qed

text \<open>
  C6. Switching to \<open>none\<close> while the recorder's status is recording pauses the recorder
  before the turn-detection setting goes to the transport; afterwards the recorder is
  paused, so a captured chunk reaches nothing. Switching to \<open>server_vad\<close> while the
  client is connected pushes the setting and starts the recorder at once.
\<close>

theorem changeTurnEndType_order:
  assumes "clientRef s = Some c"
  shows "(rec_status (wavRecorder s) = recording \<longrightarrow>
            calls (changeTurnEndType ''none'' s) =
              calls s @ [RecorderPause, ClientUpdateSession [TurnDetection None]] \<and>
            rec_status (wavRecorder (changeTurnEndType ''none'' s)) = paused \<and>
            (\<forall>samples. capture_chunk samples (changeTurnEndType ''none'' s) =
               changeTurnEndType ''none'' s) \<and>
            canPushToTalk (changeTurnEndType ''none'' s)) \<and>
         (connected c \<longrightarrow>
            calls (changeTurnEndType ''server_vad'' s) =
              calls s @ [ClientUpdateSession [TurnDetection (Some ''server_vad'')], RecorderRecord] \<and>
            rec_status (wavRecorder (changeTurnEndType ''server_vad'' s)) = recording \<and>
            \<not> canPushToTalk (changeTurnEndType ''server_vad'' s))"
  using assms by (simp add: changeTurnEndType_def step_defs Let_def capture_chunk_def)

text \<open>The running session switched to manual mode, and switched to server_vad.\<close>

theorem changeTurnEndType_order_witness:
  "calls (changeTurnEndType ''none'' live_session) =
     [RecorderPause, ClientUpdateSession [TurnDetection None]] \<and>
   rec_status (wavRecorder (changeTurnEndType ''none'' live_session)) = paused \<and>
   calls (changeTurnEndType ''server_vad'' live_session) =
     [ClientUpdateSession [TurnDetection (Some ''server_vad'')], RecorderRecord] \<and>
   rec_status (wavRecorder (changeTurnEndType ''server_vad'' live_session)) = recording"
proof -
  have a: "clientRef live_session = Some live_client"
    by (simp add: live_session_def)
  have b: "rec_status (wavRecorder live_session) = recording"
    by (simp add: live_session_def)
  have c: "connected live_client"
    by (simp add: live_client_def)
  have d: "calls live_session = []"
    by (simp add: live_session_def initial_console_def)
  from changeTurnEndType_order [OF a] b c d show ?thesis
    by simp
qed

text \<open>
  C7. \<open>disconnectConversation\<close> (a client exists) closes the transport, ends the
  recording and interrupts the playback, in this order; it empties the event log and the
  transcript, clears the marker and puts the coordinates back to the default; the store
  with the memory is the one it found.
\<close>

theorem disconnectConversation_frame:
  assumes "clientRef s = Some c"
  shows "calls (disconnectConversation s) =
           calls s @ [ClientDisconnect, RecorderEnd, PlayerInterrupt] \<and>
         \<not> client_isConnected (disconnectConversation s) \<and>
         rec_status (wavRecorder (disconnectConversation s)) = ended \<and>
         playing (wavStreamPlayer (disconnectConversation s)) = None \<and>
         realtimeEvents (disconnectConversation s) = [] \<and>
         items (disconnectConversation s) = [] \<and>
         marker (disconnectConversation s) = None \<and>
         coords (disconnectConversation s) = Some default_coords \<and>
         \<not> isConnected (disconnectConversation s) \<and>
         store (disconnectConversation s) = store s"
  using assms by (simp add: disconnectConversation_def step_defs Let_def)


text \<open>The running session, disconnected: the memory entry is still there.\<close>

theorem disconnectConversation_frame_witness:
  "calls (disconnectConversation live_session) = [ClientDisconnect, RecorderEnd, PlayerInterrupt] \<and>
   realtimeEvents (disconnectConversation live_session) = [] \<and>
   marker (disconnectConversation live_session) = None \<and>
   selectMemory (disconnectConversation live_session) = [(''name'', ''Alex'')]"
proof -
  have a: "clientRef live_session = Some live_client"
    by (simp add: live_session_def)
  have d: "calls live_session = []" "store live_session = \<lparr>memory = [(''name'', ''Alex'')]\<rparr>"
    by (simp_all add: live_session_def initial_console_def)
  from disconnectConversation_frame [OF a] d show ?thesis
    by (simp add: selectMemory_def)
qed

section \<open>The memory tools\<close>

lemma delete_absent: "map_of al k = None \<Longrightarrow> AList.delete k al = al"
  by (induction al) (auto split: if_splits)

lemma tool_set_memory_eq:
  "tool_set_memory (k, v) s = (Inr ok_true, s\<lparr>store := updateMemory (store s) k v\<rparr>)"
  by (simp add: tool_set_memory_def set_memory_handler_def onTool_def ok_true_def)

lemma tool_remove_memory_eq:
  "tool_remove_memory k s = (Inr ok_true, s\<lparr>store := removeMemory (store s) k\<rparr>)"
  by (simp add: tool_remove_memory_def remove_memory_handler_def onTool_def ok_true_def)

text \<open>
  C9. \<open>remove_memory(k)\<close> after \<open>set_memory(k, v)\<close> leaves the store as the store before
  without \<open>k\<close>: \<open>k\<close> is unbound, and when \<open>k\<close> was unbound before, the store is the
  one before. Both calls answer \<^verbatim>\<open>{ok: true}\<close>.
\<close>

theorem remove_after_set:
  "selectMemory (snd (tool_remove_memory k (snd (tool_set_memory (k, v) s)))) =
     AList.delete k (selectMemory s) \<and>
   map_of (selectMemory (snd (tool_remove_memory k (snd (tool_set_memory (k, v) s))))) k = None \<and>
   (map_of (selectMemory s) k = None \<longrightarrow>
      selectMemory (snd (tool_remove_memory k (snd (tool_set_memory (k, v) s)))) = selectMemory s) \<and>
   fst (tool_set_memory (k, v) s) = Inr (JObj [(''ok'', JBool True)]) \<and>
   fst (tool_remove_memory k (snd (tool_set_memory (k, v) s))) = Inr (JObj [(''ok'', JBool True)])"
  by (simp add: tool_set_memory_eq tool_remove_memory_eq selectMemory_def updateMemory_def
      removeMemory_def delete_update_same delete_absent ok_true_def AList.delete_conv')

text \<open>The spec's scenario, from an empty store.\<close>

theorem remove_after_set_witness:
  "selectMemory (snd (tool_remove_memory ''name''
      (snd (tool_set_memory (''name'', ''Alex'') (initial_console []))))) = []"
proof -
  have "map_of (selectMemory (initial_console [])) ''name'' = None"
    by (simp add: selectMemory_def initial_console_def)
  with remove_after_set [of "''name''" "''Alex''" "initial_console []"] show ?thesis
    by (simp add: selectMemory_def initial_console_def)
qed

section \<open>The setup effect and the memory\<close>

lemma foldl_addTool:
  "clientRef s = Some c \<Longrightarrow>
     foldl (\<lambda>st name. client_addTool name st) s ns =
       s\<lparr>clientRef := Some (c\<lparr>tools := tools c @ ns\<rparr>), calls := calls s @ map ClientAddTool ns\<rparr>"
  by (induction ns arbitrary: s c) (simp_all add: client_addTool_def call_def)

lemma foldl_on:
  "clientRef s = Some c \<Longrightarrow>
     foldl (\<lambda>st name. client_on name st) s ns =
       s\<lparr>clientRef := Some (c\<lparr>subscriptions := subscriptions c @ ns\<rparr>), calls := calls s @ map ClientOn ns\<rparr>"
  by (induction ns arbitrary: s c) (simp_all add: client_on_def call_def)

lemma setup_effect_eq:
  assumes "clientRef s = Some c"
  shows "setup_effect cfg s =
     s\<lparr>clientRef := Some (c\<lparr>sessionConfig := (sessionConfig c)
              \<lparr>cfg_instructions := Some (session_instructions cfg (selectMemory s)),
               cfg_transcription_model := Some ''whisper-1'',
               cfg_voice := Some (voice cfg),
               cfg_temperature := Some (temperature cfg)\<rparr>,
            tools := tools c @ tool_names,
            subscriptions := subscriptions c @ event_names\<rparr>),
       calls := calls s @
         [ClientUpdateSession [Instructions (session_instructions cfg (selectMemory s))],
          ClientUpdateSession [InputAudioTranscription ''whisper-1''],
          ClientUpdateSession [Voice (voice cfg), Temperature (temperature cfg)]]
         @ map ClientAddTool tool_names @ map ClientOn event_names,
       items := conversation_items c\<rparr>"
  using assms
  by (simp add: setup_effect_def client_updateSession_def call_def Let_def foldl_addTool foldl_on)

lemma commit_first:
  assumes "setup_deps s = None"
  shows "commit_render cfg s =
           setup_effect cfg
             (s\<lparr>clientRef := Some (case clientRef s of None \<Rightarrow> new_RealtimeClient | Some c \<Rightarrow> c),
                setup_deps := Some []\<rparr>)"
proof (cases "clientRef s")
  case None
  with assms show ?thesis
    by (simp add: commit_render_def deps_changed_def Let_def)
next
  case (Some c)
  with assms have l: "commit_render cfg s = setup_effect cfg (s\<lparr>setup_deps := Some []\<rparr>)"
    by (simp add: commit_render_def deps_changed_def Let_def)
  from Some have r: "s\<lparr>clientRef := Some (case clientRef s of None \<Rightarrow> new_RealtimeClient | Some c \<Rightarrow> c),
                setup_deps := Some []\<rparr> = s\<lparr>setup_deps := Some []\<rparr>"
    by (cases s) simp
  show ?thesis
    unfolding l r ..
qed

text \<open>The first committed render: what the transport holds and was sent.\<close>

lemma first_render:
  assumes "setup_deps s = None"
  shows "pushed_instructions (commit_render cfg s) = Some (session_instructions cfg (selectMemory s))"
    and "calls (commit_render cfg s) = calls s @
           [ClientUpdateSession [Instructions (session_instructions cfg (selectMemory s))],
            ClientUpdateSession [InputAudioTranscription ''whisper-1''],
            ClientUpdateSession [Voice (voice cfg), Temperature (temperature cfg)]]
           @ map ClientAddTool tool_names @ map ClientOn event_names"
    and "setup_deps (commit_render cfg s) = Some []"
    and "\<exists>c. clientRef (commit_render cfg s) = Some c"
    and "store (commit_render cfg s) = store s"
proof -
  let ?c = "case clientRef s of None \<Rightarrow> new_RealtimeClient | Some c \<Rightarrow> c"
  let ?s1 = "s\<lparr>clientRef := Some ?c, setup_deps := Some []\<rparr>"
  have m: "commit_render cfg s = setup_effect cfg ?s1"
    using assms by (rule commit_first)
  have c1: "clientRef ?s1 = Some ?c" by simp
  note e = setup_effect_eq [OF c1, of cfg]
  have mem: "selectMemory ?s1 = selectMemory s"
    by (simp add: selectMemory_def)
  show "pushed_instructions (commit_render cfg s) = Some (session_instructions cfg (selectMemory s))"
    by (simp add: m e mem pushed_instructions_def)
  show "calls (commit_render cfg s) = calls s @
           [ClientUpdateSession [Instructions (session_instructions cfg (selectMemory s))],
            ClientUpdateSession [InputAudioTranscription ''whisper-1''],
            ClientUpdateSession [Voice (voice cfg), Temperature (temperature cfg)]]
           @ map ClientAddTool tool_names @ map ClientOn event_names"
    by (simp add: m e mem)
  show "setup_deps (commit_render cfg s) = Some []"
    by (simp add: m e)
  show "\<exists>c. clientRef (commit_render cfg s) = Some c"
    by (simp add: m e)
  show "store (commit_render cfg s) = store s"
    by (simp add: m e)
qed

lemma commit_later:
  "setup_deps s = Some [] \<Longrightarrow> clientRef s = Some c \<Longrightarrow> commit_render cfg s = s"
  by (simp add: commit_render_def deps_changed_def)

lemma memory_call_frame:
  assumes "setup_deps s = Some []" and "clientRef s = Some c"
  shows "setup_deps (agent_memory_call cfg s mc) = Some [] \<and>
         clientRef (agent_memory_call cfg s mc) = Some c \<and>
         calls (agent_memory_call cfg s mc) = calls s"
  using assms
  by (cases mc) (simp_all add: tool_set_memory_eq tool_remove_memory_eq commit_later)

lemma memory_calls_frame:
  assumes "setup_deps s = Some []" and "clientRef s = Some c"
  shows "setup_deps (agent_memory_calls cfg cs s) = Some [] \<and>
         clientRef (agent_memory_calls cfg cs s) = Some c \<and>
         calls (agent_memory_calls cfg cs s) = calls s"
  using assms unfolding agent_memory_calls_def
proof (induction cs arbitrary: s)
  case Nil
  then show ?case by simp
next
  case (Cons mc cs)
  from memory_call_frame [OF Cons.prems, of cfg mc] Cons.IH [of "agent_memory_call cfg s mc"]
  show ?case by simp
qed

text \<open>
  C2, as the claim states it, fails: after \<open>set_memory\<close> the store binds \<open>name\<close>,
  nothing was sent to the transport, and the instructions it holds still embed the empty
  memory.
\<close>

theorem stale_instructions_counterexample:
  "selectMemory page_after_set_memory = [(''name'', ''Alex'')] \<and>
   pushed_instructions page_after_set_memory = Some (session_instructions example_config []) \<and>
   pushed_instructions page_after_set_memory \<noteq>
     Some (session_instructions example_config (selectMemory page_after_set_memory)) \<and>
   calls page_after_set_memory = calls fresh_page"
proof -
  have d0: "setup_deps (initial_console []) = None"
    by (simp add: initial_console_def)
  note f = first_render [OF d0, of example_config, folded fresh_page_def]
  from f(4) obtain c where c: "clientRef fresh_page = Some c" ..
  have m0: "selectMemory (initial_console []) = []"
    by (simp add: selectMemory_def initial_console_def)
  have st: "selectMemory fresh_page = []"
    using f(5) m0 by (simp add: selectMemory_def)
  have "commit_render example_config (fresh_page\<lparr>store := updateMemory (store fresh_page) ''name'' ''Alex''\<rparr>)
          = fresh_page\<lparr>store := updateMemory (store fresh_page) ''name'' ''Alex''\<rparr>"
    by (rule commit_later [where c = c]) (simp_all add: f(3) c)
  then have after: "page_after_set_memory = fresh_page\<lparr>store := updateMemory (store fresh_page) ''name'' ''Alex''\<rparr>"
    by (simp add: page_after_set_memory_def tool_set_memory_eq)
  have mem: "selectMemory page_after_set_memory = [(''name'', ''Alex'')]"
    using st by (simp add: after selectMemory_def updateMemory_def)
  have p2: "pushed_instructions page_after_set_memory = Some (session_instructions example_config [])"
    using f(1) m0 by (simp add: after pushed_instructions_def)
  have ne: "session_instructions example_config [] \<noteq>
            session_instructions example_config [(''name'', ''Alex'')]"
    by (simp add: session_instructions_def json_stringify_memory_def)
  from mem p2 ne show ?thesis
    by (simp add: after)
qed


text \<open>
  C2, amended. The first committed render of the page runs the setup effect, which
  pushes the session configuration once: the instructions with the serialized memory of
  that moment, the transcription model, and voice and temperature. The effect's
  dependency array is empty, so a render after a \<open>set_memory\<close> or \<open>remove_memory\<close> call
  does not run it again: whatever calls follow, nothing more reaches the transport and
  the instructions it holds embed the memory as it was at setup.
\<close>

theorem setup_pushes_once:
  assumes "setup_deps s0 = None"
  shows "pushed_instructions (commit_render cfg s0) =
           Some (session_instructions cfg (selectMemory s0)) \<and>
         calls (commit_render cfg s0) = calls s0 @
           [ClientUpdateSession [Instructions (session_instructions cfg (selectMemory s0))],
            ClientUpdateSession [InputAudioTranscription ''whisper-1''],
            ClientUpdateSession [Voice (voice cfg), Temperature (temperature cfg)]]
           @ map ClientAddTool tool_names @ map ClientOn event_names \<and>
         (\<forall>cs. calls (agent_memory_calls cfg cs (commit_render cfg s0)) = calls (commit_render cfg s0) \<and>
               pushed_instructions (agent_memory_calls cfg cs (commit_render cfg s0)) =
                 Some (session_instructions cfg (selectMemory s0)))"
proof -
  note f = first_render [OF assms, of cfg]
  from f(4) obtain c where c: "clientRef (commit_render cfg s0) = Some c" ..
  have "\<forall>cs. calls (agent_memory_calls cfg cs (commit_render cfg s0)) = calls (commit_render cfg s0) \<and>
               pushed_instructions (agent_memory_calls cfg cs (commit_render cfg s0)) =
                 Some (session_instructions cfg (selectMemory s0))"
  proof
    fix cs
    from memory_calls_frame [OF f(3) c, of cfg cs] f(1) c
    show "calls (agent_memory_calls cfg cs (commit_render cfg s0)) = calls (commit_render cfg s0) \<and>
               pushed_instructions (agent_memory_calls cfg cs (commit_render cfg s0)) =
                 Some (session_instructions cfg (selectMemory s0))"
      by (simp add: pushed_instructions_def)
  qed
  with f(1) f(2) show ?thesis by blast
qed

text \<open>A first render with an empty store, then a \<open>set_memory\<close> and a \<open>remove_memory\<close>.\<close>

theorem setup_pushes_once_witness:
  "pushed_instructions (commit_render example_config (initial_console [])) =
     Some (session_instructions example_config []) \<and>
   pushed_instructions
     (agent_memory_calls example_config [SetMemory ''name'' ''Alex'', RemoveMemory ''name'']
        (commit_render example_config (initial_console []))) =
     Some (session_instructions example_config [])"
proof -
  have d0: "setup_deps (initial_console []) = None"
    by (simp add: initial_console_def)
  have m0: "selectMemory (initial_console []) = []"
    by (simp add: selectMemory_def initial_console_def)
  from setup_pushes_once [OF d0, of example_config] m0 show ?thesis
    by simp
qed

section \<open>The provider-backed tools\<close>

lemma bindE_Inl [simp]: "bindE (Inl e) f = Inl e"
  by (simp add: bindE_def)

lemma bindE_Inr [simp]: "bindE (Inr x) f = f x"
  by (simp add: bindE_def)

lemma get_prop_error: "get_prop v p = Inl e \<Longrightarrow> \<exists>m. e = js_error ''TypeError'' m"
  by (cases v) (auto simp: cannot_read_def)

lemma search_try_shape:
  "search_related_topics_try ev q = Inr r \<Longrightarrow>
     r = ok_false ''No related topics found'' \<or>
     (\<exists>ts. r = JObj [(''ok'', JBool True), (''relatedTopics'', JArr ts)])"
  by (auto simp: search_related_topics_try_def bindE_def split: sum.splits if_splits)

lemma search_total:
  "\<exists>r. tool_search_related_topics ev q s = (Inr r, call (Fetch (related_topics_url ev q)) s) \<and>
       (r = ok_false ''Error retrieving related topics'' \<or>
        r = ok_false ''No related topics found'' \<or>
        (\<exists>ts. r = JObj [(''ok'', JBool True), (''relatedTopics'', JArr ts)]))"
proof (cases "search_related_topics_try ev q")
  case (Inl e)
  then show ?thesis
    by (simp add: tool_search_related_topics_def search_related_topics_handler_def
        onTool_def ok_false_def)
next
  case (Inr r)
  from search_try_shape [OF Inr] Inr show ?thesis
    by (auto simp: tool_search_related_topics_def search_related_topics_handler_def
        onTool_def ok_false_def)
qed

lemma search_failure:
  "isl (search_related_topics_try ev q) \<Longrightarrow>
     fst (tool_search_related_topics ev q s) = Inr (ok_false ''Error retrieving related topics'')"
  by (cases "search_related_topics_try ev q")
    (simp_all add: tool_search_related_topics_def search_related_topics_handler_def
        onTool_def ok_false_def)

lemma search_try_fails:
  "isl (bindE (fetch ev (related_topics_url ev q) [(''accept-language'', ''de-DE,en-US,en;q=0.9'')]) resp_json)
     \<Longrightarrow> isl (search_related_topics_try ev q)"
  "bindE (fetch ev (related_topics_url ev q) [(''accept-language'', ''de-DE,en-US,en;q=0.9'')]) resp_json = Inr data
     \<Longrightarrow> isl (related_topics data) \<Longrightarrow> isl (search_related_topics_try ev q)"
  by (auto simp: search_related_topics_try_def bindE_def split: sum.splits)

lemma wikipedia_try_shape:
  "wikipedia_search_try ev l q = Inr r \<Longrightarrow>
     r = ok_false ''No search results found'' \<or>
     (\<exists>objs. r = JObj [(''ok'', JBool True), (''searchResults'', JArr objs)])"
  by (auto simp: wikipedia_search_try_def bindE_def split: sum.splits if_splits option.splits)

lemma wikipedia_total:
  "\<exists>r. fst (tool_wikipedia_search ev args s) = Inr r \<and>
       (r = ok_false ''Error searching Wikipedia'' \<or>
        r = ok_false ''No search results found'' \<or>
        (\<exists>objs. r = JObj [(''ok'', JBool True), (''searchResults'', JArr objs)]))"
proof (cases "wikipedia_search_try ev (case snd args of None \<Rightarrow> ''en'' | Some l \<Rightarrow> l) (fst args)")
  case (Inl e)
  then show ?thesis
    by (simp add: tool_wikipedia_search_def Let_def)
next
  case (Inr r)
  from wikipedia_try_shape [OF Inr] Inr show ?thesis
    by (auto simp: tool_wikipedia_search_def Let_def)
qed

lemma wikipedia_failure:
  "isl (wikipedia_search_try ev (case snd args of None \<Rightarrow> ''en'' | Some l \<Rightarrow> l) (fst args)) \<Longrightarrow>
     fst (tool_wikipedia_search ev args s) = Inr (ok_false ''Error searching Wikipedia'')"
  by (cases "wikipedia_search_try ev (case snd args of None \<Rightarrow> ''en'' | Some l \<Rightarrow> l) (fst args)")
    (simp_all add: tool_wikipedia_search_def Let_def)

lemma wikipedia_try_fails:
  "isl (bindE (fetch ev (wikipedia_url ev l q) []) resp_json) \<Longrightarrow> isl (wikipedia_search_try ev l q)"
  "bindE (fetch ev (wikipedia_url ev l q) []) resp_json = Inr data
     \<Longrightarrow> isl (search_results ev l data) \<Longrightarrow> isl (wikipedia_search_try ev l q)"
  by (auto simp: wikipedia_search_try_def bindE_def split: sum.splits)

lemma scrape_total:
  "\<exists>r. fst (tool_webpage_scrape ev url s) = Inr r \<and>
       (r = ok_false ''Error scraping webpage'' \<or>
        r = ok_false ''No text content found on the webpage'' \<or>
        (\<exists>md. r = JObj [(''ok'', JBool True), (''markdownContent'', JStr md)]))"
  by (auto simp: tool_webpage_scrape_def Let_def split: sum.splits)

lemma scrape_failure:
  "isl (fetch ev (scrape_url ev url) []) \<Longrightarrow>
     fst (tool_webpage_scrape ev url s) = Inr (ok_false ''Error scraping webpage'')"
  "fetch ev (scrape_url ev url) [] = Inr response \<Longrightarrow> \<not> resp_ok response \<or> isl (resp_text response) \<Longrightarrow>
     fst (tool_webpage_scrape ev url s) = Inr (ok_false ''Error scraping webpage'')"
  by (auto simp: tool_webpage_scrape_def Let_def split: sum.splits)

lemma weather_readings_error:
  "weather_readings json = Inl e \<Longrightarrow> \<exists>m. e = js_error ''TypeError'' m"
  by (auto simp: weather_readings_def bindE_def split: sum.splits dest!: get_prop_error)

lemma get_weather_fetch_failure:
  assumes "toString ev (JNum la) = Inr las" and "toString ev (JNum lo) = Inr los"
    and "bindE (fetch ev (weather_url las los) []) resp_json = Inl (js_error n m)"
  shows "fst (tool_get_weather ev (la, lo, place_name) s) = Inr (JObj [(''error'', JStr m)])"
  using assms
  by (simp add: tool_get_weather_def get_weather_handler_def Let_def onTool_def js_error_def)

lemma get_weather_data_failure:
  assumes "toString ev (JNum la) = Inr las" and "toString ev (JNum lo) = Inr los"
    and "bindE (fetch ev (weather_url las los) []) resp_json = Inr json"
    and "isl (weather_readings json)"
  shows "\<exists>m. fst (tool_get_weather ev (la, lo, place_name) s) = Inr (JObj [(''error'', JStr m)])"
proof -
  from assms(4) obtain e where e: "weather_readings json = Inl e"
    by (cases "weather_readings json") auto
  from weather_readings_error [OF e] obtain m where "e = js_error ''TypeError'' m" ..
  with e assms(1-3) show ?thesis
    by (simp add: tool_get_weather_def get_weather_handler_def Let_def onTool_def js_error_def)
qed

lemma get_first_error: "get_first v = Inl e \<Longrightarrow> \<exists>m. e = js_error ''TypeError'' m"
  by (cases v) (auto simp: cannot_read_def)

lemma image_url_error:
  "bindE (get_prop response ''data'') (\<lambda>d. bindE (get_first d) (\<lambda>d0. get_prop d0 ''url'')) = Inl e
     \<Longrightarrow> \<exists>m. e = js_error ''TypeError'' m"
  by (auto simp: bindE_def split: sum.splits dest!: get_prop_error get_first_error)

lemma generate_image_data_failure:
  assumes "images_generate ev prompt = Inr response"
    and "isl (bindE (get_prop response ''data'') (\<lambda>d. bindE (get_first d) (\<lambda>d0. get_prop d0 ''url'')))"
  shows "\<exists>m. fst (tool_generate_image ev prompt s) = Inr (JObj [(''error'', JStr m)])"
proof -
  from assms(2) obtain e where
    e: "bindE (get_prop response ''data'') (\<lambda>d. bindE (get_first d) (\<lambda>d0. get_prop d0 ''url'')) = Inl e"
    by (cases "bindE (get_prop response ''data'') (\<lambda>d. bindE (get_first d) (\<lambda>d0. get_prop d0 ''url''))")
      auto
  from image_url_error [OF e] obtain m where "e = js_error ''TypeError'' m" ..
  with e assms(1) show ?thesis
    by (simp add: tool_generate_image_def generate_image_handler_def Let_def onTool_def js_error_def)
qed

lemma generate_image_failure:
  assumes "images_generate ev prompt = Inl (js_error n m)"
  shows "fst (tool_generate_image ev prompt s) = Inr (JObj [(''error'', JStr m)])"
  using assms
  by (simp add: tool_generate_image_def generate_image_handler_def Let_def onTool_def js_error_def)

text \<open>
  C5, as the claim states it, fails: with the network down, \<open>get_weather\<close> answers
  \<^verbatim>\<open>{error: "Failed to fetch"}\<close>, the shape \<open>onTool\<close> gives, not \<^verbatim>\<open>{ok: false, message}\<close>.
\<close>

theorem get_weather_error_shape_counterexample:
  "fst (tool_get_weather offline_env (52.52, 13.41, ''Berlin'') (initial_console [])) =
     Inr (JObj [(''error'', JStr ''Failed to fetch'')]) \<and>
   fst (tool_get_weather offline_env (52.52, 13.41, ''Berlin'') (initial_console [])) \<noteq>
     Inr (JObj [(''ok'', JBool False), (''message'', JStr ''Failed to fetch'')])"
  by (simp add: tool_get_weather_def get_weather_handler_def Let_def onTool_def js_error_def
      offline_env_def example_toString_def)


text \<open>
  A failure, for these handlers, is an operation that throws. An answer that decodes and
  can be read is not examined further: \<open>wikipedia_search\<close> answers a non-success
  response whose only entry has neither title nor page id as a success.
\<close>

lemma wikipedia_readable_answer_accepted:
  "fst (tool_wikipedia_search untitled_answer_env (''cats'', None) (initial_console [])) =
     Inr (JObj [(''ok'', JBool True),
                (''searchResults'',
                 JArr [JObj [(''title'', JUndefined), (''snippet'', JStr ''cat''),
                             (''pageid'', JUndefined),
                             (''url'', JStr ''https://en.wikipedia.org/?curid=undefined'')]])])"
  by (simp add: tool_wikipedia_search_def wikipedia_search_try_def search_results_def
      search_result_def strip_tags_def untitled_answer_env_def untitled_answer_def
      offline_env_def example_toString_def Let_def)

text \<open>
  C5, amended. \<open>search_related_topics\<close>, \<open>wikipedia_search\<close> and \<open>webpage_scrape\<close>
  return for every environment and never throw; their result is a success object or
  \<^verbatim>\<open>{ok: false, message}\<close>, and it is \<^verbatim>\<open>{ok: false, message}\<close> whenever the network
  operation rejects, the body of the response cannot be decoded, or reading the decoded
  data throws, and for \<open>webpage_scrape\<close> also when the response is not a success.
  \<open>get_weather\<close> and \<open>generate_image\<close> have no such mapping: when their network
  operation rejects with an Error, or the fields they read cannot be read from the
  response, the exception is caught by \<open>onTool\<close> and returned as \<^verbatim>\<open>{error: message}\<close>.
\<close>

theorem provider_failures_mapped:
  "(\<exists>r. fst (tool_search_related_topics ev q s) = Inr r \<and>
       (r = ok_false ''Error retrieving related topics'' \<or>
        r = ok_false ''No related topics found'' \<or>
        (\<exists>ts. r = JObj [(''ok'', JBool True), (''relatedTopics'', JArr ts)]))) \<and>
   (isl (bindE (fetch ev (related_topics_url ev q)
                  [(''accept-language'', ''de-DE,en-US,en;q=0.9'')]) resp_json) \<longrightarrow>
      fst (tool_search_related_topics ev q s) =
        Inr (ok_false ''Error retrieving related topics'')) \<and>
   (\<forall>data. bindE (fetch ev (related_topics_url ev q)
                    [(''accept-language'', ''de-DE,en-US,en;q=0.9'')]) resp_json = Inr data \<longrightarrow>
      isl (related_topics data) \<longrightarrow>
      fst (tool_search_related_topics ev q s) =
        Inr (ok_false ''Error retrieving related topics'')) \<and>
   (\<exists>r. fst (tool_wikipedia_search ev (q, language) s) = Inr r \<and>
       (r = ok_false ''Error searching Wikipedia'' \<or>
        r = ok_false ''No search results found'' \<or>
        (\<exists>objs. r = JObj [(''ok'', JBool True), (''searchResults'', JArr objs)]))) \<and>
   (isl (bindE (fetch ev (wikipedia_url ev (case language of None \<Rightarrow> ''en'' | Some l \<Rightarrow> l) q) [])
             resp_json) \<longrightarrow>
      fst (tool_wikipedia_search ev (q, language) s) =
        Inr (ok_false ''Error searching Wikipedia'')) \<and>
   (\<forall>data. bindE (fetch ev (wikipedia_url ev (case language of None \<Rightarrow> ''en'' | Some l \<Rightarrow> l) q) [])
               resp_json = Inr data \<longrightarrow>
      isl (search_results ev (case language of None \<Rightarrow> ''en'' | Some l \<Rightarrow> l) data) \<longrightarrow>
      fst (tool_wikipedia_search ev (q, language) s) =
        Inr (ok_false ''Error searching Wikipedia'')) \<and>
   (\<exists>r. fst (tool_webpage_scrape ev url s) = Inr r \<and>
       (r = ok_false ''Error scraping webpage'' \<or>
        r = ok_false ''No text content found on the webpage'' \<or>
        (\<exists>md. r = JObj [(''ok'', JBool True), (''markdownContent'', JStr md)]))) \<and>
   (isl (fetch ev (scrape_url ev url) []) \<longrightarrow>
      fst (tool_webpage_scrape ev url s) = Inr (ok_false ''Error scraping webpage'')) \<and>
   (\<forall>response. fetch ev (scrape_url ev url) [] = Inr response \<longrightarrow>
      \<not> resp_ok response \<or> isl (resp_text response) \<longrightarrow>
      fst (tool_webpage_scrape ev url s) = Inr (ok_false ''Error scraping webpage'')) \<and>
   (\<forall>la lo name message.
      toString ev (JNum latitude) = Inr la \<longrightarrow> toString ev (JNum longitude) = Inr lo \<longrightarrow>
      bindE (fetch ev (weather_url la lo) []) resp_json = Inl (js_error name message) \<longrightarrow>
      fst (tool_get_weather ev (latitude, longitude, place_name) s) = Inr (JObj [(''error'', JStr message)])) \<and>
   (\<forall>la lo json.
      toString ev (JNum latitude) = Inr la \<longrightarrow> toString ev (JNum longitude) = Inr lo \<longrightarrow>
      bindE (fetch ev (weather_url la lo) []) resp_json = Inr json \<longrightarrow>
      isl (weather_readings json) \<longrightarrow>
      (\<exists>message. fst (tool_get_weather ev (latitude, longitude, place_name) s) =
                    Inr (JObj [(''error'', JStr message)]))) \<and>
   (\<forall>name message.
      images_generate ev prompt = Inl (js_error name message) \<longrightarrow>
      fst (tool_generate_image ev prompt s) = Inr (JObj [(''error'', JStr message)])) \<and>
   (\<forall>response.
      images_generate ev prompt = Inr response \<longrightarrow>
      isl (bindE (get_prop response ''data'') (\<lambda>d. bindE (get_first d) (\<lambda>d0. get_prop d0 ''url''))) \<longrightarrow>
      (\<exists>message. fst (tool_generate_image ev prompt s) = Inr (JObj [(''error'', JStr message)])))"
proof -
  have a: "\<exists>r. fst (tool_search_related_topics ev q s) = Inr r \<and>
       (r = ok_false ''Error retrieving related topics'' \<or>
        r = ok_false ''No related topics found'' \<or>
        (\<exists>ts. r = JObj [(''ok'', JBool True), (''relatedTopics'', JArr ts)]))"
    using search_total [of ev q s] by force
  have b: "\<exists>r. fst (tool_wikipedia_search ev (q, language) s) = Inr r \<and>
       (r = ok_false ''Error searching Wikipedia'' \<or>
        r = ok_false ''No search results found'' \<or>
        (\<exists>objs. r = JObj [(''ok'', JBool True), (''searchResults'', JArr objs)]))"
    by (rule wikipedia_total)
  have c0: "isl (wikipedia_search_try ev (case language of None \<Rightarrow> ''en'' | Some l \<Rightarrow> l) q) \<longrightarrow>
      fst (tool_wikipedia_search ev (q, language) s) =
        Inr (ok_false ''Error searching Wikipedia'')"
    using wikipedia_failure [of ev "(q, language)" s] by simp
  have c: "isl (bindE (fetch ev (wikipedia_url ev (case language of None \<Rightarrow> ''en'' | Some l \<Rightarrow> l) q) [])
             resp_json) \<longrightarrow>
      fst (tool_wikipedia_search ev (q, language) s) =
        Inr (ok_false ''Error searching Wikipedia'')"
    using c0 wikipedia_try_fails(1) by blast
  have c': "\<forall>data. bindE (fetch ev (wikipedia_url ev (case language of None \<Rightarrow> ''en'' | Some l \<Rightarrow> l) q) [])
               resp_json = Inr data \<longrightarrow>
      isl (search_results ev (case language of None \<Rightarrow> ''en'' | Some l \<Rightarrow> l) data) \<longrightarrow>
      fst (tool_wikipedia_search ev (q, language) s) =
        Inr (ok_false ''Error searching Wikipedia'')"
    using c0 wikipedia_try_fails(2) by blast
  note d = scrape_total [of ev url s]
  have e: "isl (bindE (fetch ev (related_topics_url ev q)
                  [(''accept-language'', ''de-DE,en-US,en;q=0.9'')]) resp_json) \<longrightarrow>
      fst (tool_search_related_topics ev q s) =
        Inr (ok_false ''Error retrieving related topics'')"
    using search_failure search_try_fails(1) by blast
  have e': "\<forall>data. bindE (fetch ev (related_topics_url ev q)
                    [(''accept-language'', ''de-DE,en-US,en;q=0.9'')]) resp_json = Inr data \<longrightarrow>
      isl (related_topics data) \<longrightarrow>
      fst (tool_search_related_topics ev q s) =
        Inr (ok_false ''Error retrieving related topics'')"
    using search_failure search_try_fails(2) by blast
  have f: "isl (fetch ev (scrape_url ev url) []) \<longrightarrow>
      fst (tool_webpage_scrape ev url s) = Inr (ok_false ''Error scraping webpage'')"
    using scrape_failure(1) by blast
  have g: "\<forall>response. fetch ev (scrape_url ev url) [] = Inr response \<longrightarrow>
      \<not> resp_ok response \<or> isl (resp_text response) \<longrightarrow>
      fst (tool_webpage_scrape ev url s) = Inr (ok_false ''Error scraping webpage'')"
    using scrape_failure(2) by blast
  have h: "\<forall>la lo name message.
      toString ev (JNum latitude) = Inr la \<longrightarrow> toString ev (JNum longitude) = Inr lo \<longrightarrow>
      bindE (fetch ev (weather_url la lo) []) resp_json = Inl (js_error name message) \<longrightarrow>
      fst (tool_get_weather ev (latitude, longitude, place_name) s) = Inr (JObj [(''error'', JStr message)])"
    using get_weather_fetch_failure by blast
  have i: "\<forall>la lo json.
      toString ev (JNum latitude) = Inr la \<longrightarrow> toString ev (JNum longitude) = Inr lo \<longrightarrow>
      bindE (fetch ev (weather_url la lo) []) resp_json = Inr json \<longrightarrow>
      isl (weather_readings json) \<longrightarrow>
      (\<exists>message. fst (tool_get_weather ev (latitude, longitude, place_name) s) =
                    Inr (JObj [(''error'', JStr message)]))"
    using get_weather_data_failure by blast
  have j: "\<forall>name message.
      images_generate ev prompt = Inl (js_error name message) \<longrightarrow>
      fst (tool_generate_image ev prompt s) = Inr (JObj [(''error'', JStr message)])"
    using generate_image_failure by blast
  have k: "\<forall>response.
      images_generate ev prompt = Inr response \<longrightarrow>
      isl (bindE (get_prop response ''data'') (\<lambda>d. bindE (get_first d) (\<lambda>d0. get_prop d0 ''url''))) \<longrightarrow>
      (\<exists>message. fst (tool_generate_image ev prompt s) = Inr (JObj [(''error'', JStr message)]))"
    using generate_image_data_failure by blast
  from a e e' b c c' d f g h i j k show ?thesis
    by (intro conjI)
qed


text \<open>The four tools that reach a provider by themselves, with the network down.\<close>

theorem provider_failures_mapped_witness:
  "fst (tool_search_related_topics offline_env ''cats'' (initial_console [])) =
     Inr (JObj [(''ok'', JBool False), (''message'', JStr ''Error retrieving related topics'')]) \<and>
   fst (tool_wikipedia_search offline_env (''cats'', None) (initial_console [])) =
     Inr (JObj [(''ok'', JBool False), (''message'', JStr ''Error searching Wikipedia'')]) \<and>
   fst (tool_webpage_scrape offline_env ''example.com'' (initial_console [])) =
     Inr (JObj [(''ok'', JBool False), (''message'', JStr ''Error scraping webpage'')]) \<and>
   fst (tool_generate_image offline_env ''a cat'' (initial_console [])) =
     Inr (JObj [(''error'', JStr ''Connection error.'')])"
proof -
  have a: "isl (bindE (fetch offline_env (related_topics_url offline_env ''cats'')
                  [(''accept-language'', ''de-DE,en-US,en;q=0.9'')]) resp_json)"
    by (simp add: offline_env_def)
  have b: "isl (bindE (fetch offline_env
                  (wikipedia_url offline_env (case None of None \<Rightarrow> ''en'' | Some l \<Rightarrow> l) ''cats'') [])
             resp_json)"
    by (simp add: offline_env_def)
  have c: "isl (fetch offline_env (scrape_url offline_env ''example.com'') [])"
    by (simp add: offline_env_def)
  have d: "images_generate offline_env ''a cat'' = Inl (js_error ''APIConnectionError'' ''Connection error.'')"
    by (simp add: offline_env_def)
  from provider_failures_mapped [where ev = offline_env and q = "''cats''" and language = None
      and url = "''example.com''" and prompt = "''a cat''" and s = "initial_console []"]
    a b c d
  show ?thesis
    by (simp add: ok_false_def)
qed


lemma js_trim_blank:
  assumes "\<forall>c \<in> set str. js_whitespace c"
  shows "js_trim str = []"
proof -
  from assms have h: "dropWhile js_whitespace str = []"
    using dropWhile_eq_Nil_conv by blast
  show ?thesis
    unfolding js_trim_def h by simp
qed

text \<open>
  C8. When the scrape collaborator answers with success and a body that is empty or
  holds only white space, \<open>webpage_scrape\<close> returns exactly
  \<^verbatim>\<open>{ok: false, message: "No text content found on the webpage"}\<close>, and the request is the
  only call it made: neither the HTML parser nor the Markdown converter was called.
\<close>

theorem scrape_blank_page:
  assumes "fetch ev (scrape_url ev url) [] = Inr response"
    and "resp_ok response"
    and "resp_text response = Inr htmlContent"
    and "\<forall>c \<in> set htmlContent. js_whitespace c"
  shows "tool_webpage_scrape ev url s =
           (Inr (JObj [(''ok'', JBool False),
                       (''message'', JStr ''No text content found on the webpage'')]),
            call (Fetch (scrape_url ev url)) s)"
  using assms by (simp add: tool_webpage_scrape_def Let_def js_trim_blank ok_false_def)

text \<open>A page of a space, a line feed and a tab, with a parser that would throw.\<close>

theorem scrape_blank_page_witness:
  "tool_webpage_scrape blank_page_env ''example.com'' (initial_console []) =
     (Inr (JObj [(''ok'', JBool False),
                 (''message'', JStr ''No text content found on the webpage'')]),
      (initial_console [])\<lparr>calls := [Fetch ''http://localhost:8082/scrape?url=example.com'']\<rparr>)"
proof -
  have u: "scrape_url blank_page_env ''example.com'' = ''http://localhost:8082/scrape?url=example.com''"
    by (simp add: scrape_url_def blank_page_env_def)
  have a: "fetch blank_page_env (scrape_url blank_page_env ''example.com'') [] = Inr blank_page"
    by (simp add: blank_page_env_def)
  have b: "resp_ok blank_page"
    by (simp add: blank_page_def)
  have c: "resp_text blank_page = Inr [CHR 0x20, CHR 0x0A, CHR 0x09]"
    by (simp add: blank_page_def)
  have d: "\<forall>c \<in> set [CHR 0x20, CHR 0x0A, CHR 0x09]. js_whitespace c"
    by (simp add: js_whitespace_def)
  from scrape_blank_page [OF a b c d, of "initial_console []"] u show ?thesis
    by (simp add: call_def initial_console_def)
qed


section \<open>The proxy server\<close>

lemma get_proxy_400:
  "map_of (query req) ''q'' = None \<Longrightarrow>
     get_proxy ev req =
       (\<lparr>status = 400,
         body = SendText (''Query parameter '' @ [CHR 0x22] @ ''q'' @ [CHR 0x22] @ '' is required'')\<rparr>, [])"
  by (simp add: get_proxy_def query_param_def)

lemma get_scrape_400:
  "map_of (query req) ''url'' = None \<Longrightarrow>
     get_scrape ev req =
       (\<lparr>status = 400,
         body = SendText (''Query parameter '' @ [CHR 0x22] @ ''url'' @ [CHR 0x22] @ '' is required'')\<rparr>, [])"
  by (simp add: get_scrape_def query_param_def)

text \<open>
  C10. A request to /proxy without \<open>q\<close>, and one to /scrape without \<open>url\<close>, is answered
  400 with the text naming the parameter, and nothing is fetched; a route that fetched
  had its parameter.
\<close>

theorem proxy_requires_parameter:
  "(map_of (query req) ''q'' = None \<longrightarrow>
      get_proxy ev req =
        (\<lparr>status = 400,
          body = SendText (''Query parameter '' @ [CHR 0x22] @ ''q'' @ [CHR 0x22] @ '' is required'')\<rparr>, [])) \<and>
   (map_of (query req) ''url'' = None \<longrightarrow>
      get_scrape ev req =
        (\<lparr>status = 400,
          body = SendText (''Query parameter '' @ [CHR 0x22] @ ''url'' @ [CHR 0x22] @ '' is required'')\<rparr>, [])) \<and>
   (snd (get_proxy ev req) \<noteq> [] \<longrightarrow> map_of (query req) ''q'' \<noteq> None) \<and>
   (snd (get_scrape ev req) \<noteq> [] \<longrightarrow> map_of (query req) ''url'' \<noteq> None)"
proof (intro conjI impI)
  assume "map_of (query req) ''q'' = None"
  then show "get_proxy ev req =
        (\<lparr>status = 400,
          body = SendText (''Query parameter '' @ [CHR 0x22] @ ''q'' @ [CHR 0x22] @ '' is required'')\<rparr>, [])"
    by (rule get_proxy_400)
next
  assume "map_of (query req) ''url'' = None"
  then show "get_scrape ev req =
        (\<lparr>status = 400,
          body = SendText (''Query parameter '' @ [CHR 0x22] @ ''url'' @ [CHR 0x22] @ '' is required'')\<rparr>, [])"
    by (rule get_scrape_400)
next
  assume c: "snd (get_proxy ev req) \<noteq> []"
  show "map_of (query req) ''q'' \<noteq> None"
  proof
    assume "map_of (query req) ''q'' = None"
    from get_proxy_400 [OF this, of ev] c show False by simp
  qed
next
  assume c: "snd (get_scrape ev req) \<noteq> []"
  show "map_of (query req) ''url'' \<noteq> None"
  proof
    assume "map_of (query req) ''url'' = None"
    from get_scrape_400 [OF this, of ev] c show False by simp
  qed
qed


text \<open>A request with no parameters, to both routes.\<close>

theorem proxy_requires_parameter_witness:
  "get_proxy offline_env \<lparr>query = []\<rparr> =
     (\<lparr>status = 400, body = SendText (''Query parameter '' @ [CHR 0x22] @ ''q'' @ [CHR 0x22] @ '' is required'')\<rparr>, []) \<and>
   get_scrape offline_env \<lparr>query = []\<rparr> =
     (\<lparr>status = 400, body = SendText (''Query parameter '' @ [CHR 0x22] @ ''url'' @ [CHR 0x22] @ '' is required'')\<rparr>, [])"
  using proxy_requires_parameter [of "\<lparr>query = []\<rparr>" offline_env]
  by simp

end
